theory Spec2Isabelle
  imports Main "HOL-Library.Finite_Map" "HOL-Library.Word"
begin

section \<open>The tracing collector (gc.h, gc.cpp)\<close>

text \<open>
  Addresses are natural numbers. A \<open>gc_object\<close> header lives at an address of the heap
  \<open>objects\<close>; its payload is the range from \<open>start\<close> (the address just behind the header)
  to \<open>end_addr\<close> (the field \<open>end_\<close>). The intrusive chain \<open>first \<rightarrow> next \<rightarrow> \<dots>\<close> of the handles embedded in an
  object is held as the list of the addresses of its handles, in traversal order
  (pushing a handle onto the chain conses its address onto the list). The destructor
  thunk of a header is one of the three lambdas of the source: an invocation is
  recorded in \<open>finalised\<close>, and the elements it destroys are recorded in \<open>payload_log\<close>,
  named by the header's address and the element's index. What the destructor of an
  element does itself is user code and outside the collector.
  \<open>root_ref_cnt\<close> (\<open>std::atomic<int>\<close>) and \<open>gc_counter\<close> (\<open>std::atomic<long>\<close>) are
  unbounded integers; no operation below brings them near the limits of their types.
  The operations are the sequential ones: each atomic operation and each locked region
  is one step.
\<close>

type_synonym addr = nat

datatype PtrType = ROOT | GC_HEAP

text \<open>
  The destructor thunks: the empty lambda of the default constructor, the
  \<open>std::destroy_at\<close> of \<open>New<T>\<close>, and the reverse \<open>std::destroy\<close> of \<open>New<T[]>\<close> with its
  \<open>sizeof(T)\<close>.
\<close>

datatype thunk = No_thunk | Destroy_at | Destroy_reverse nat

record gc_object =
  end_addr :: addr
  destructor :: thunk
  root_ref_cnt :: int
  first :: "addr list"
  mark :: bool

record gc_base_ptr =
  type :: PtrType
  object :: "addr option"

text \<open>\<open>Ptr<T>\<close> adds the displayed pointer to the tracked one.\<close>

record Ptr = gc_base_ptr +
  ptr :: "addr option"

datatype payload_event = Constructed addr nat | Destroyed addr nat

record gc_state =
  objects :: "(addr, gc_object) fmap"
  handles :: "addr \<rightharpoonup> Ptr"
  all_objects :: "addr list"
  gc_counter :: int
  current :: "addr option"
  finalised :: "addr list"
  payload_log :: "payload_event list"

text \<open>
  \<open>sizeof(gc_object)\<close> on an LP64 platform; \<open>start\<close> is \<open>this + 1\<close> of the header.
\<close>

definition sizeof_gc_object :: nat where
  "sizeof_gc_object = 40"

definition start :: "addr \<Rightarrow> addr" where
  "start a = a + sizeof_gc_object"

text \<open>
  \<open>gc_object::~gc_object()\<close> calls the thunk on \<open>[start, end)\<close>: the elements it destroys,
  in the order it destroys them.
\<close>

definition run_destructor :: "addr \<Rightarrow> gc_object \<Rightarrow> payload_event list" where
  "run_destructor a ob =
     (case destructor ob of
        No_thunk \<Rightarrow> []
      | Destroy_at \<Rightarrow> [Destroyed a 0]
      | Destroy_reverse sizeof_T \<Rightarrow>
          map (Destroyed a) (rev [0..<(end_addr ob - start a) div sizeof_T]))"

definition finalise :: "(addr, gc_object) fmap \<Rightarrow> addr \<Rightarrow> payload_event list" where
  "finalise os a = (case fmlookup os a of None \<Rightarrow> [] | Some ob \<Rightarrow> run_destructor a ob)"

subsection \<open>gc\_collect\<close>

text \<open>
  The vector \<open>pending\<close> is a list whose head is the back of the vector. A read through a
  pointer to a header or a handle that is not there is undefined behaviour in the
  source and \<open>None\<close> here.
\<close>

text \<open>Phase 1, inner loop: push every non-null referent of the chain.\<close>

fun push_referents :: "(addr \<rightharpoonup> Ptr) \<Rightarrow> addr list \<Rightarrow> addr list \<Rightarrow> addr list option" where
  "push_referents hs [] pending = Some pending"
| "push_referents hs (j # js) pending =
     (case hs j of
        None \<Rightarrow> None
      | Some p \<Rightarrow> push_referents hs js (case object p of None \<Rightarrow> pending | Some o2 \<Rightarrow> o2 # pending))"

text \<open>Phase 2, inner loop: push every non-null referent that is not marked.\<close>

fun push_unmarked ::
  "(addr, gc_object) fmap \<Rightarrow> (addr \<rightharpoonup> Ptr) \<Rightarrow> addr list \<Rightarrow> addr list \<Rightarrow> addr list option" where
  "push_unmarked os hs [] pending = Some pending"
| "push_unmarked os hs (j # js) pending =
     (case hs j of
        None \<Rightarrow> None
      | Some p \<Rightarrow>
          (case object p of
             None \<Rightarrow> push_unmarked os hs js pending
           | Some o2 \<Rightarrow>
               (case fmlookup os o2 of
                  None \<Rightarrow> None
                | Some ob \<Rightarrow> push_unmarked os hs js (if mark ob then pending else o2 # pending))))"

text \<open>Phase 1: seed \<open>pending\<close> from the root-referenced objects, resetting every mark.\<close>

fun seed ::
  "(addr \<rightharpoonup> Ptr) \<Rightarrow> addr list \<Rightarrow> (addr, gc_object) fmap \<Rightarrow> addr list
     \<Rightarrow> ((addr, gc_object) fmap \<times> addr list) option" where
  "seed hs [] os pending = Some (os, pending)"
| "seed hs (c # cs) os pending =
     (case fmlookup os c of
        None \<Rightarrow> None
      | Some ob \<Rightarrow>
          if root_ref_cnt ob \<noteq> 0 then
            (case push_referents hs (first ob) pending of
               None \<Rightarrow> None
             | Some pending' \<Rightarrow> seed hs cs (fmupd c (ob\<lparr>mark := True\<rparr>) os) pending')
          else seed hs cs (fmupd c (ob\<lparr>mark := False\<rparr>) os) pending)"

definition unmarked :: "(addr, gc_object) fmap \<Rightarrow> addr set" where
  "unmarked os = {a. \<exists>ob. fmlookup os a = Some ob \<and> \<not> mark ob}"

text \<open>Phase 2: mark everything reachable from \<open>pending\<close>.\<close>

function propagate ::
  "(addr \<rightharpoonup> Ptr) \<Rightarrow> (addr, gc_object) fmap \<Rightarrow> addr list \<Rightarrow> (addr, gc_object) fmap option" where
  "propagate hs os [] = Some os"
| "propagate hs os (c # pending) =
     (case fmlookup os c of
        None \<Rightarrow> None
      | Some ob \<Rightarrow>
          if mark ob then propagate hs os pending
          else
            (case push_unmarked (fmupd c (ob\<lparr>mark := True\<rparr>) os) hs (first ob) pending of
               None \<Rightarrow> None
             | Some pending' \<Rightarrow> propagate hs (fmupd c (ob\<lparr>mark := True\<rparr>) os) pending'))"
  by pat_completeness auto

termination propagate
proof (relation "measures [\<lambda>(hs, os, pending). card (unmarked os), \<lambda>(hs, os, pending). length pending]")
  show "wf (measures [\<lambda>(hs, os, pending). card (unmarked os), \<lambda>(hs, os, pending). length pending])"
    by simp
next
  fix hs :: "addr \<rightharpoonup> Ptr" and os :: "(addr, gc_object) fmap"
    and c :: addr and pending :: "addr list" and ob :: gc_object
  assume "fmlookup os c = Some ob" "mark ob"
  then show "((hs, os, pending), hs, os, c # pending)
      \<in> measures [\<lambda>(hs, os, pending). card (unmarked os), \<lambda>(hs, os, pending). length pending]"
    by simp
next
  fix hs :: "addr \<rightharpoonup> Ptr" and os :: "(addr, gc_object) fmap"
    and c :: addr and pending pending' :: "addr list" and ob :: gc_object
  assume ob: "fmlookup os c = Some ob" "\<not> mark ob"
  have "unmarked os \<subseteq> fmdom' os"
    by (auto simp: unmarked_def fmdom'I)
  then have fin: "finite (unmarked os)"
    by (rule finite_subset) simp
  have upd: "unmarked (fmupd c (ob\<lparr>mark := True\<rparr>) os) = unmarked os - {c}"
    using ob by (auto simp: unmarked_def)
  have "c \<in> unmarked os"
    using ob by (auto simp: unmarked_def)
  then have "card (unmarked os - {c}) < card (unmarked os)"
    using fin by (intro card_Diff1_less)
  then have "card (unmarked (fmupd c (ob\<lparr>mark := True\<rparr>) os)) < card (unmarked os)"
    by (simp only: upd)
  then show "((hs, fmupd c (ob\<lparr>mark := True\<rparr>) os, pending'), hs, os, c # pending)
      \<in> measures [\<lambda>(hs, os, pending). card (unmarked os), \<lambda>(hs, os, pending). length pending]"
    by simp
qed

definition is_marked :: "(addr, gc_object) fmap \<Rightarrow> addr \<Rightarrow> bool" where
  "is_marked os a = (case fmlookup os a of None \<Rightarrow> False | Some ob \<Rightarrow> mark ob)"

text \<open>
  The whole cycle: phases 1 to 3 and the recalibration of the counter under the lock,
  then the destructor thunks of the garbage (phase 4), then the release of its storage
  (phase 5).
\<close>

definition gc_collect :: "gc_state \<Rightarrow> gc_state option" where
  "gc_collect s =
     (if all_objects s = [] then Some s
      else
        (case seed (handles s) (all_objects s) (objects s) [] of
           None \<Rightarrow> None
         | Some (os1, pending) \<Rightarrow>
             (case propagate (handles s) os1 pending of
                None \<Rightarrow> None
              | Some os2 \<Rightarrow>
                  let live = filter (is_marked os2) (all_objects s);
                      garbage = filter (\<lambda>a. \<not> is_marked os2 a) (all_objects s);
                      new_count = max (int (length live) * 2) 1024
                  in Some (s\<lparr>objects := fold fmdrop garbage os2,
                             all_objects := live,
                             gc_counter := new_count,
                             finalised := finalised s @ garbage,
                             payload_log := payload_log s @ concat (map (finalise os2) garbage)\<rparr>))))"

subsection \<open>Handles: gc\_base\_ptr\<close>

text \<open>
  The classification of a handle at address \<open>this\<close>: inside the payload of the object
  under construction or not.
\<close>

definition classify :: "gc_state \<Rightarrow> addr \<Rightarrow> PtrType option" where
  "classify s this =
     (case current s of
        None \<Rightarrow> Some ROOT
      | Some c \<Rightarrow>
          (case fmlookup (objects s) c of
             None \<Rightarrow> None
           | Some cur \<Rightarrow> Some (if start c \<le> this \<and> this < end_addr cur then GC_HEAP else ROOT)))"

text \<open>
  \<open>inc_root\<close>: the CAS loop (count not 0) and the locked \<open>fetch_add\<close> (count 0) both add
  one. \<open>dec_root\<close>: \<open>fetch_sub\<close>.
\<close>

definition inc_root :: "gc_state \<Rightarrow> addr \<Rightarrow> gc_state option" where
  "inc_root s a =
     (case fmlookup (objects s) a of
        None \<Rightarrow> None
      | Some ob \<Rightarrow> Some (s\<lparr>objects := fmupd a (ob\<lparr>root_ref_cnt := root_ref_cnt ob + 1\<rparr>) (objects s)\<rparr>))"

definition dec_root :: "gc_state \<Rightarrow> addr \<Rightarrow> gc_state option" where
  "dec_root s a =
     (case fmlookup (objects s) a of
        None \<Rightarrow> None
      | Some ob \<Rightarrow> Some (s\<lparr>objects := fmupd a (ob\<lparr>root_ref_cnt := root_ref_cnt ob - 1\<rparr>) (objects s)\<rparr>))"

definition store_object :: "gc_state \<Rightarrow> addr \<Rightarrow> addr option \<Rightarrow> gc_state option" where
  "store_object s this v =
     (case handles s this of
        None \<Rightarrow> None
      | Some p \<Rightarrow> Some (s\<lparr>handles := (handles s)(this \<mapsto> p\<lparr>object := v\<rparr>)\<rparr>))"

text \<open>
  The part of both constructors for a handle inside the object under construction:
  publish the referent and push the handle onto the chain of \<open>current\<close>.
\<close>

definition link_heap_ptr :: "gc_state \<Rightarrow> addr \<Rightarrow> addr option \<Rightarrow> gc_state option" where
  "link_heap_ptr s this v =
     (case current s of
        None \<Rightarrow> None
      | Some c \<Rightarrow>
          (case fmlookup (objects s) c of
             None \<Rightarrow> None
           | Some cur \<Rightarrow>
               Some (s\<lparr>handles := (handles s)(this \<mapsto> \<lparr>type = GC_HEAP, object = v, ptr = None\<rparr>),
                       objects := fmupd c (cur\<lparr>first := this # first cur\<rparr>) (objects s)\<rparr>)))"

text \<open>\<open>gc_base_ptr::gc_base_ptr(gc_object* o)\<close>\<close>

definition gc_base_ptr_ctor :: "gc_state \<Rightarrow> addr \<Rightarrow> addr option \<Rightarrow> gc_state option" where
  "gc_base_ptr_ctor s this v =
     (case classify s this of
        None \<Rightarrow> None
      | Some GC_HEAP \<Rightarrow> link_heap_ptr s this v
      | Some ROOT \<Rightarrow>
          (let s' = s\<lparr>handles := (handles s)(this \<mapsto> \<lparr>type = ROOT, object = v, ptr = None\<rparr>)\<rparr>
           in case v of None \<Rightarrow> Some s' | Some a \<Rightarrow> inc_root s' a))"

text \<open>\<open>gc_base_ptr::gc_base_ptr(gc_base_ptr&& o)\<close>\<close>

definition gc_base_ptr_move_ctor :: "gc_state \<Rightarrow> addr \<Rightarrow> addr \<Rightarrow> gc_state option" where
  "gc_base_ptr_move_ctor s this src =
     (case classify s this of
        None \<Rightarrow> None
      | Some ty \<Rightarrow>
          (case handles s src of
             None \<Rightarrow> None
           | Some q \<Rightarrow>
               (let o2 = object q in
                if ty = GC_HEAP then link_heap_ptr s this o2
                else
                  (let s' = s\<lparr>handles := (handles s)(this \<mapsto> \<lparr>type = ROOT, object = o2, ptr = None\<rparr>)\<rparr>
                   in case o2 of
                        None \<Rightarrow> Some s'
                      | Some a \<Rightarrow>
                          if type q = ROOT then store_object s' src None
                          else inc_root s' a))))"

text \<open>\<open>gc_base_ptr::operator=(nullptr_t)\<close> and \<open>gc_base_ptr::reset()\<close> have one body.\<close>

definition gc_base_ptr_reset :: "gc_state \<Rightarrow> addr \<Rightarrow> gc_state option" where
  "gc_base_ptr_reset s this =
     (case handles s this of
        None \<Rightarrow> None
      | Some p \<Rightarrow>
          if type p = GC_HEAP then store_object s this None
          else
            (case store_object s this None of
               None \<Rightarrow> None
             | Some s' \<Rightarrow> (case object p of None \<Rightarrow> Some s' | Some a \<Rightarrow> dec_root s' a)))"

text \<open>
  The tail shared by both assignments when the destination is a root and the source is
  not taken over: release the old referent, store the new one, acquire it.
\<close>

definition root_reassign :: "gc_state \<Rightarrow> addr \<Rightarrow> addr option \<Rightarrow> addr option \<Rightarrow> gc_state option" where
  "root_reassign s this o1 o2 =
     (case (case o1 of None \<Rightarrow> Some s | Some a \<Rightarrow> dec_root s a) of
        None \<Rightarrow> None
      | Some s1 \<Rightarrow>
          (case store_object s1 this o2 of
             None \<Rightarrow> None
           | Some s2 \<Rightarrow> (case o2 of None \<Rightarrow> Some s2 | Some b \<Rightarrow> inc_root s2 b)))"

text \<open>\<open>gc_base_ptr::operator=(const gc_base_ptr& o)\<close>\<close>

definition gc_base_ptr_copy_assign :: "gc_state \<Rightarrow> addr \<Rightarrow> addr \<Rightarrow> gc_state option" where
  "gc_base_ptr_copy_assign s this src =
     (case (handles s this, handles s src) of
        (Some p, Some q) \<Rightarrow>
          (let o1 = object p; o2 = object q in
           if o1 = o2 then Some s
           else if type p = GC_HEAP then store_object s this o2
           else root_reassign s this o1 o2)
      | _ \<Rightarrow> None)"

text \<open>\<open>gc_base_ptr::operator=(gc_base_ptr&& o)\<close>\<close>

definition gc_base_ptr_move_assign :: "gc_state \<Rightarrow> addr \<Rightarrow> addr \<Rightarrow> gc_state option" where
  "gc_base_ptr_move_assign s this src =
     (case (handles s this, handles s src) of
        (Some p, Some q) \<Rightarrow>
          (let o1 = object p; o2 = object q in
           if o1 = o2 then Some s
           else if type p = GC_HEAP then store_object s this o2
           else if type q = ROOT then
             (case store_object s this o2 of
                None \<Rightarrow> None
              | Some s' \<Rightarrow> store_object s' src o1)
           else root_reassign s this o1 o2)
      | _ \<Rightarrow> None)"

text \<open>\<open>gc_base_ptr::~gc_base_ptr()\<close>; the storage of the handle ends with it.\<close>

definition gc_base_ptr_dtor :: "gc_state \<Rightarrow> addr \<Rightarrow> gc_state option" where
  "gc_base_ptr_dtor s this =
     (case handles s this of
        None \<Rightarrow> None
      | Some p \<Rightarrow>
          (let s' = s\<lparr>handles := (handles s)(this := None)\<rparr> in
           if type p = ROOT then (case object p of None \<Rightarrow> Some s' | Some a \<Rightarrow> dec_root s' a)
           else Some s'))"

subsection \<open>The typed factories New<T> and New<T[]>\<close>

text \<open>
  A constructor of a payload is user code; the model takes its outcome only (it returns
  or it throws) and records each construction and destruction of an element in
  \<open>payload_log\<close>. The storage \<open>mem\<close> is
  the address that \<open>::operator new\<close> returned. A factory ends by returning or by
  throwing, and both leave a state behind; \<open>None\<close> is undefined behaviour.
\<close>

datatype 'a outcome = Returned 'a | Thrown 'a

fun outcome_state :: "'a outcome \<Rightarrow> 'a" where
  "outcome_state (Returned s) = s"
| "outcome_state (Thrown s) = s"

text \<open>
  The locked region of both factories: construct the header, wire the creating handle,
  count it as a root if it is one, and append the header to the registry.
\<close>

definition register_object ::
  "gc_state \<Rightarrow> addr \<Rightarrow> addr \<Rightarrow> addr \<Rightarrow> thunk \<Rightarrow> gc_state option" where
  "register_object s this mem e d =
     (case handles s this of
        None \<Rightarrow> None
      | Some p \<Rightarrow>
          Some (s\<lparr>objects :=
                    fmupd mem \<lparr>end_addr = e, destructor = d,
                               root_ref_cnt = (if type p = ROOT then 1 else 0),
                               first = [], mark = False\<rparr> (objects s),
                  handles := (handles s)(this \<mapsto> p\<lparr>object := Some mem\<rparr>),
                  all_objects := all_objects s @ [mem]\<rparr>))"

definition store_ptr :: "gc_state \<Rightarrow> addr \<Rightarrow> addr option \<Rightarrow> gc_state option" where
  "store_ptr s this v =
     (case handles s this of
        None \<Rightarrow> None
      | Some p \<Rightarrow> Some (s\<lparr>handles := (handles s)(this \<mapsto> p\<lparr>ptr := v\<rparr>)\<rparr>))"

text \<open>The statements of both \<open>catch (...)\<close> blocks behind the destruction of the prefix.\<close>

definition unwind_new :: "gc_state \<Rightarrow> addr \<Rightarrow> addr \<Rightarrow> addr option \<Rightarrow> gc_state option" where
  "unwind_new s this new_obj parent =
     (case handles s this of
        None \<Rightarrow> None
      | Some p \<Rightarrow>
          (case (if type p = ROOT then dec_root s new_obj else Some s) of
             None \<Rightarrow> None
           | Some s1 \<Rightarrow>
               (case store_object s1 this None of
                  None \<Rightarrow> None
                | Some s2 \<Rightarrow>
                    (case store_ptr s2 this None of
                       None \<Rightarrow> None
                     | Some s3 \<Rightarrow> Some (s3\<lparr>current := parent\<rparr>)))))"

text \<open>
  \<open>New<T>::New(Args&&...)\<close>, behind the default construction of its handle base: the
  counter is decremented, and the collection runs when the value then loaded is
  negative.
\<close>

definition New :: "gc_state \<Rightarrow> addr \<Rightarrow> addr \<Rightarrow> nat \<Rightarrow> bool \<Rightarrow> gc_state outcome option" where
  "New s this mem sizeof_T ctor_ok =
     (case gc_base_ptr_ctor s this None of
        None \<Rightarrow> None
      | Some s0 \<Rightarrow>
          (let s1 = s0\<lparr>gc_counter := gc_counter s0 - 1\<rparr> in
           case (if gc_counter s1 < 0 then gc_collect s1 else Some s1) of
             None \<Rightarrow> None
           | Some s2 \<Rightarrow>
               (case register_object s2 this mem (mem + sizeof_gc_object + sizeof_T) Destroy_at of
                  None \<Rightarrow> None
                | Some s3 \<Rightarrow>
                    (let parent = current s3 in
                     case store_ptr (s3\<lparr>current := Some mem\<rparr>) this (Some (start mem)) of
                       None \<Rightarrow> None
                     | Some s4 \<Rightarrow>
                         if ctor_ok then
                           Some (Returned (s4\<lparr>payload_log := payload_log s4 @ [Constructed mem 0],
                                               current := parent\<rparr>))
                         else map_option Thrown (unwind_new s4 this mem parent)))))"

text \<open>
  The construction loop of the array factory: \<open>n\<close> elements are still to construct,
  \<open>constructed_end\<close> is the index of the next one. It yields the final
  \<open>constructed_end\<close>, whether a constructor threw, and the log.
\<close>

fun construct_elements ::
  "(nat \<Rightarrow> bool) \<Rightarrow> addr \<Rightarrow> nat \<Rightarrow> nat \<Rightarrow> payload_event list \<Rightarrow> nat \<times> bool \<times> payload_event list" where
  "construct_elements ctor_ok mem constructed_end 0 lg = (constructed_end, False, lg)"
| "construct_elements ctor_ok mem constructed_end (Suc n) lg =
     (if ctor_ok constructed_end
      then construct_elements ctor_ok mem (Suc constructed_end) n (lg @ [Constructed mem constructed_end])
      else (constructed_end, True, lg))"

text \<open>\<open>std::destroy(first, last)\<close> runs from \<open>first\<close> up to \<open>last\<close>.\<close>

definition std_destroy :: "addr \<Rightarrow> nat \<Rightarrow> nat \<Rightarrow> payload_event list" where
  "std_destroy mem i j = map (Destroyed mem) [i..<j]"

text \<open>
  \<open>New<T[]>::New(std::size_t size)\<close>, with \<open>count\<close> for \<open>size\<close>: the collection runs when
  the value of the counter before the decrement was not positive.
\<close>

definition New_array ::
  "gc_state \<Rightarrow> addr \<Rightarrow> addr \<Rightarrow> nat \<Rightarrow> nat \<Rightarrow> (nat \<Rightarrow> bool) \<Rightarrow> gc_state outcome option" where
  "New_array s this mem count sizeof_T ctor_ok =
     (case gc_base_ptr_ctor s this None of
        None \<Rightarrow> None
      | Some s0 \<Rightarrow>
          (let prior = gc_counter s0;
               s1 = s0\<lparr>gc_counter := gc_counter s0 - 1\<rparr> in
           case (if prior \<le> 0 then gc_collect s1 else Some s1) of
             None \<Rightarrow> None
           | Some s2 \<Rightarrow>
               (case register_object s2 this mem (mem + sizeof_gc_object + count * sizeof_T)
                       (Destroy_reverse sizeof_T) of
                  None \<Rightarrow> None
                | Some s3 \<Rightarrow>
                    (let parent = current s3 in
                     case store_ptr (s3\<lparr>current := Some mem\<rparr>) this (Some (start mem)) of
                       None \<Rightarrow> None
                     | Some s4 \<Rightarrow>
                         (case construct_elements ctor_ok mem 0 count (payload_log s4) of
                            (constructed_end, threw, lg) \<Rightarrow>
                              if threw then
                                map_option Thrown
                                  (unwind_new (s4\<lparr>payload_log := lg @ std_destroy mem 0 constructed_end\<rparr>)
                                     this mem parent)
                              else Some (Returned (s4\<lparr>payload_log := lg, current := parent\<rparr>)))))))"

section \<open>The reference-counted pointer (VSharedPtr.hpp)\<close>

text \<open>
  A control block lives at an address of \<open>blocks\<close>; \<open>delete this\<close> takes it out, and a
  later access through its address is undefined behaviour (\<open>Undefined\<close>). The handles
  ever constructed are the entries of \<open>vhandles\<close>, named by their index; the entry of a
  handle is \<open>None\<close> once its destructor has run. The counters are \<open>size_t\<close>, 64 bits wide
  and wrapping. The operations are the sequential ones: an atomic operation is one
  step, and a thread that waits for a mutex nobody will release is \<open>Blocked\<close>. The two
  build parameters are the template argument \<open>TM\<close> and \<open>meta::safety_checks_enabled\<close>.
  The release operations record their steps in \<open>rc_trace\<close>.

  A managed object is named by its address. \<open>members\<close> gives the handles that are
  members of a managed object, in the order in which its destructor destroys them:
  \<open>delete p\<close> runs the destructor of each of them, and so may release further objects
  and blocks. The destructor of a member handle is the parameter \<open>D\<close> of the operations
  that can delete an object; \<open>member_dtor\<close> below closes the recursion, with the depth of
  nested destruction bounded by a number (\<open>Out_of_fuel\<close> beyond it). What else the
  destructor of a managed object does is user code and not modelled.
\<close>

datatype ThreadMode = TM_True | TM_False

datatype memory_order = relaxed | acquire | release | acq_rel | seq_cst

record build =
  TM :: ThreadMode
  safety_checks_enabled :: bool

definition MO_acquire :: "ThreadMode \<Rightarrow> memory_order" where
  "MO_acquire tm = (if tm = TM_True then acquire else relaxed)"

definition MO_release :: "ThreadMode \<Rightarrow> memory_order" where
  "MO_release tm = (if tm = TM_True then release else relaxed)"

definition magic_alive :: "64 word" where
  "magic_alive = 0xDEADBEEFCAFEBABE"

definition magic_destroyed :: "64 word" where
  "magic_destroyed = 0xDEADDEADDEADDEAD"

datatype shared_mutex = Unlocked | Locked_shared nat | Locked_exclusive

datatype rc_error =
  MemorySafety string | Aborted | Terminated | Undefined | Blocked | BadAlloc | Out_of_fuel

datatype counter = Strong | Weak

datatype rc_event =
    Fetch_sub addr counter memory_order
  | Post_decrement addr counter
  | Fence memory_order
  | Lock_exclusive addr
  | Delete_object addr bool
  | Unlock_exclusive addr
  | Load_count addr counter
  | Delete_this addr

record ControlBlock =
  gc_strong_count :: "64 word"
  gc_weak_count :: "64 word"
  cb_ptr :: "addr option"
  object_destroyed :: bool
  is_array :: bool
  object_mutex :: shared_mutex
  magic_header :: "64 word"
  magic_footer :: "64 word"
  control_block_destroyed :: bool

record VSharedPtr =
  ctrl :: "addr option"
  is_weak :: bool

record rc_state =
  blocks :: "addr \<rightharpoonup> ControlBlock"
  vhandles :: "VSharedPtr option list"
  members :: "addr \<rightharpoonup> nat list"
  rc_trace :: "rc_event list"

type_synonym member_dtor = "rc_state \<Rightarrow> nat \<Rightarrow> rc_error + rc_state"

subsection \<open>ControlBlock\<close>

definition throw_or_abort :: "build \<Rightarrow> string \<Rightarrow> rc_error" where
  "throw_or_abort b msg = (if safety_checks_enabled b then MemorySafety msg else Aborted)"

text \<open>\<open>ControlBlock(T* p, bool is_array)\<close>\<close>

definition ControlBlock_ctor :: "addr option \<Rightarrow> bool \<Rightarrow> ControlBlock" where
  "ControlBlock_ctor p arr =
     \<lparr>gc_strong_count = 1, gc_weak_count = 0, cb_ptr = p, object_destroyed = False,
      is_array = arr, object_mutex = Unlocked, magic_header = magic_alive,
      magic_footer = magic_alive, control_block_destroyed = False\<rparr>"

text \<open>\<open>verify_integrity\<close>: the exception it throws, if any.\<close>

definition verify_integrity :: "build \<Rightarrow> ControlBlock \<Rightarrow> rc_error option" where
  "verify_integrity b cb =
     (if \<not> safety_checks_enabled b then None
      else if magic_header cb \<noteq> magic_alive \<or> magic_footer cb \<noteq> magic_alive
        then Some (MemorySafety ''ControlBlock: corruption detected!'')
      else if control_block_destroyed cb
        then Some (MemorySafety ''ControlBlock: already destroyed!'')
      else None)"

definition add_strong :: "build \<Rightarrow> rc_state \<Rightarrow> addr \<Rightarrow> rc_error + rc_state" where
  "add_strong b s c =
     (case blocks s c of
        None \<Rightarrow> Inl Undefined
      | Some cb \<Rightarrow>
          (case verify_integrity b cb of
             Some e \<Rightarrow> Inl e
           | None \<Rightarrow> Inr (s\<lparr>blocks := (blocks s)(c \<mapsto> cb\<lparr>gc_strong_count := gc_strong_count cb + 1\<rparr>)\<rparr>)))"

definition add_weak :: "build \<Rightarrow> rc_state \<Rightarrow> addr \<Rightarrow> rc_error + rc_state" where
  "add_weak b s c =
     (case blocks s c of
        None \<Rightarrow> Inl Undefined
      | Some cb \<Rightarrow>
          (case verify_integrity b cb of
             Some e \<Rightarrow> Inl e
           | None \<Rightarrow> Inr (s\<lparr>blocks := (blocks s)(c \<mapsto> cb\<lparr>gc_weak_count := gc_weak_count cb + 1\<rparr>)\<rparr>)))"

text \<open>
  \<open>try_add_strong\<close>: the CAS loop of the thread-safe build, run alone, is the plain
  test and increment of the other build.
\<close>

definition try_add_strong :: "rc_state \<Rightarrow> addr \<Rightarrow> rc_error + (bool \<times> rc_state)" where
  "try_add_strong s c =
     (case blocks s c of
        None \<Rightarrow> Inl Undefined
      | Some cb \<Rightarrow>
          if 0 < gc_strong_count cb
          then Inr (True, s\<lparr>blocks := (blocks s)(c \<mapsto> cb\<lparr>gc_strong_count := gc_strong_count cb + 1\<rparr>)\<rparr>)
          else Inr (False, s))"

text \<open>The member destructors of a managed object, one after the other.\<close>

fun destroy_members :: "member_dtor \<Rightarrow> rc_state \<Rightarrow> nat list \<Rightarrow> rc_error + rc_state" where
  "destroy_members D s [] = Inr s"
| "destroy_members D s (h # hs) =
     (case D s h of Inl e \<Rightarrow> Inl e | Inr s1 \<Rightarrow> destroy_members D s1 hs)"

text \<open>\<open>delete p\<close> and \<open>delete[] p\<close>: the destructor, then the storage is gone.\<close>

definition delete_object :: "member_dtor \<Rightarrow> rc_state \<Rightarrow> addr \<Rightarrow> bool \<Rightarrow> rc_error + rc_state" where
  "delete_object D s p arr =
     (let s1 = s\<lparr>rc_trace := rc_trace s @ [Delete_object p arr]\<rparr> in
      case members s p of
        None \<Rightarrow> Inr s1
      | Some hs \<Rightarrow>
          (case destroy_members D s1 hs of
             Inl e \<Rightarrow> Inl e
           | Inr s2 \<Rightarrow> Inr (s2\<lparr>members := (members s2)(p := None)\<rparr>)))"

text \<open>The end of the scope of the \<open>std::unique_lock\<close> in \<open>destroy_object\<close>.\<close>

definition unlock_exclusive :: "rc_state \<Rightarrow> addr \<Rightarrow> rc_error + rc_state" where
  "unlock_exclusive s c =
     (case blocks s c of
        None \<Rightarrow> Inl Undefined
      | Some cb \<Rightarrow>
          Inr (s\<lparr>blocks := (blocks s)(c \<mapsto> cb\<lparr>object_mutex := Unlocked\<rparr>),
                 rc_trace := rc_trace s @ [Unlock_exclusive c]\<rparr>))"

text \<open>
  \<open>destroy_object\<close>: behind the flag, take the mutex exclusively, swap the managed
  pointer for null and delete the object, then unlock.
\<close>

definition destroy_object :: "member_dtor \<Rightarrow> rc_state \<Rightarrow> addr \<Rightarrow> rc_error + rc_state" where
  "destroy_object D s c =
     (case blocks s c of
        None \<Rightarrow> Inl Undefined
      | Some cb \<Rightarrow>
          if object_destroyed cb then Inr s
          else if object_mutex cb \<noteq> Unlocked then Inl Blocked
          else
            (let s1 = s\<lparr>blocks := (blocks s)(c \<mapsto> cb\<lparr>object_destroyed := True,
                                   object_mutex := Locked_exclusive, cb_ptr := None\<rparr>),
                        rc_trace := rc_trace s @ [Lock_exclusive c]\<rparr>
             in case (case cb_ptr cb of
                        None \<Rightarrow> Inr s1
                      | Some p \<Rightarrow> delete_object D s1 p (is_array cb)) of
                  Inl e \<Rightarrow> Inl e
                | Inr s2 \<Rightarrow> unlock_exclusive s2 c))"

definition decrement_event :: "build \<Rightarrow> addr \<Rightarrow> counter \<Rightarrow> rc_event" where
  "decrement_event b c k =
     (if TM b = TM_True then Fetch_sub c k (MO_release (TM b)) else Post_decrement c k)"

definition fence_events :: "build \<Rightarrow> rc_event list" where
  "fence_events b = (if TM b = TM_True then [Fence (MO_acquire (TM b))] else [])"

text \<open>
  \<open>delete this\<close>: the destructor overwrites the sentinels and sets the flag, then the
  storage is gone.
\<close>

definition delete_this :: "build \<Rightarrow> rc_state \<Rightarrow> addr \<Rightarrow> rc_state" where
  "delete_this b s c =
     s\<lparr>blocks := (blocks s)(c := None),
       rc_trace := rc_trace s @ fence_events b @ [Delete_this c]\<rparr>"

definition release_strong :: "member_dtor \<Rightarrow> build \<Rightarrow> rc_state \<Rightarrow> addr \<Rightarrow> rc_error + rc_state" where
  "release_strong D b s c =
     (case blocks s c of
        None \<Rightarrow> Inl Undefined
      | Some cb \<Rightarrow>
          (let old_count = gc_strong_count cb;
               s1 = s\<lparr>blocks := (blocks s)(c \<mapsto> cb\<lparr>gc_strong_count := gc_strong_count cb - 1\<rparr>),
                      rc_trace := rc_trace s @ [decrement_event b c Strong]\<rparr>
           in if old_count = 0 then Inr s1
              else if old_count = 1 then
                (case destroy_object D (s1\<lparr>rc_trace := rc_trace s1 @ fence_events b\<rparr>) c of
                   Inl e \<Rightarrow> Inl e
                 | Inr s2 \<Rightarrow>
                     (case blocks s2 c of
                        None \<Rightarrow> Inl Undefined
                      | Some cb2 \<Rightarrow>
                          (let weak = gc_weak_count cb2;
                               s3 = s2\<lparr>rc_trace := rc_trace s2 @ [Load_count c Weak]\<rparr>
                           in if weak = 0 then Inr (delete_this b s3 c) else Inr s3)))
              else Inr s1))"

definition release_weak :: "build \<Rightarrow> rc_state \<Rightarrow> addr \<Rightarrow> rc_error + rc_state" where
  "release_weak b s c =
     (case blocks s c of
        None \<Rightarrow> Inl Undefined
      | Some cb \<Rightarrow>
          (let old_count = gc_weak_count cb;
               s1 = s\<lparr>blocks := (blocks s)(c \<mapsto> cb\<lparr>gc_weak_count := gc_weak_count cb - 1\<rparr>),
                      rc_trace := rc_trace s @ [decrement_event b c Weak]\<rparr>
           in if old_count = 0 then Inr s1
              else if old_count = 1 then
                (let strong = gc_strong_count cb;
                     s2 = s1\<lparr>rc_trace := rc_trace s1 @ fence_events b @ [Load_count c Strong]\<rparr>
                 in if strong = 0 then Inr (delete_this b s2 c) else Inr s2)
              else Inr s1))"

subsection \<open>VSharedPtr\<close>

definition handle_at :: "rc_state \<Rightarrow> nat \<Rightarrow> VSharedPtr option" where
  "handle_at s h = (if h < length (vhandles s) then vhandles s ! h else None)"

definition put_handle :: "rc_state \<Rightarrow> nat \<Rightarrow> VSharedPtr \<Rightarrow> rc_state" where
  "put_handle s h p = s\<lparr>vhandles := (vhandles s)[h := Some p]\<rparr>"

definition new_handle :: "rc_state \<Rightarrow> VSharedPtr \<Rightarrow> nat \<times> rc_state" where
  "new_handle s p = (length (vhandles s), s\<lparr>vhandles := vhandles s @ [Some p]\<rparr>)"

definition null_handle :: VSharedPtr where
  "null_handle = \<lparr>ctrl = None, is_weak = False\<rparr>"

text \<open>An exception that leaves a \<open>noexcept\<close> function ends the program.\<close>

definition noexcept :: "rc_error + 'a \<Rightarrow> rc_error + 'a" where
  "noexcept r = (case r of Inl (MemorySafety m) \<Rightarrow> Inl Terminated | _ \<Rightarrow> r)"

text \<open>\<open>VSharedPtr::release()\<close>\<close>

definition VSharedPtr_release :: "member_dtor \<Rightarrow> build \<Rightarrow> rc_state \<Rightarrow> nat \<Rightarrow> rc_error + rc_state" where
  "VSharedPtr_release D b s this =
     (case handle_at s this of
        None \<Rightarrow> Inl Undefined
      | Some p \<Rightarrow>
          (case ctrl p of
             None \<Rightarrow> Inr s
           | Some c \<Rightarrow> if is_weak p then release_weak b s c else release_strong D b s c))"

text \<open>\<open>VSharedPtr()\<close> and \<open>VSharedPtr(std::nullptr_t)\<close>\<close>

definition ctor_null :: "rc_state \<Rightarrow> rc_error + (nat \<times> rc_state)" where
  "ctor_null s = Inr (new_handle s null_handle)"

text \<open>
  \<open>VSharedPtr(Elem* ptr)\<close>: \<open>cb\<close> is the address that \<open>new CB\<close> returned, \<open>None\<close> when the
  allocation failed (the payload is then deleted and the exception goes on); \<open>arr\<close> is
  \<open>std::is_array_v<T>\<close>. The address of a live block is not a result of \<open>new\<close>.
\<close>

definition ctor_raw ::
  "rc_state \<Rightarrow> addr option \<Rightarrow> addr option \<Rightarrow> bool \<Rightarrow> rc_error + (nat \<times> rc_state)" where
  "ctor_raw s p cb arr =
     (case p of
        None \<Rightarrow> Inr (new_handle s null_handle)
      | Some a \<Rightarrow>
          (case cb of
             None \<Rightarrow> Inl BadAlloc
           | Some c \<Rightarrow>
               if blocks s c \<noteq> None then Inl Undefined
               else Inr (new_handle (s\<lparr>blocks := (blocks s)(c \<mapsto> ControlBlock_ctor (Some a) arr)\<rparr>)
                           \<lparr>ctrl = Some c, is_weak = False\<rparr>)))"

text \<open>\<open>VSharedPtr(const VSharedPtr& o) noexcept\<close>\<close>

definition copy_ctor :: "build \<Rightarrow> rc_state \<Rightarrow> nat \<Rightarrow> rc_error + (nat \<times> rc_state)" where
  "copy_ctor b s other =
     (case handle_at s other of
        None \<Rightarrow> Inl Undefined
      | Some q \<Rightarrow>
          (case (case ctrl q of
                   None \<Rightarrow> Inr s
                 | Some c \<Rightarrow> noexcept (if is_weak q then add_weak b s c else add_strong b s c)) of
             Inl e \<Rightarrow> Inl e
           | Inr s1 \<Rightarrow> Inr (new_handle s1 \<lparr>ctrl = ctrl q, is_weak = is_weak q\<rparr>)))"

text \<open>\<open>VSharedPtr(VSharedPtr&& o) noexcept\<close>\<close>

definition move_ctor :: "rc_state \<Rightarrow> nat \<Rightarrow> rc_error + (nat \<times> rc_state)" where
  "move_ctor s other =
     (case handle_at s other of
        None \<Rightarrow> Inl Undefined
      | Some q \<Rightarrow> Inr (new_handle (put_handle s other null_handle) \<lparr>ctrl = ctrl q, is_weak = is_weak q\<rparr>))"

text \<open>\<open>~VSharedPtr()\<close>\<close>

definition dtor :: "member_dtor \<Rightarrow> build \<Rightarrow> rc_state \<Rightarrow> nat \<Rightarrow> rc_error + rc_state" where
  "dtor D b s this =
     (case VSharedPtr_release D b s this of
        Inl e \<Rightarrow> Inl e
      | Inr s1 \<Rightarrow> Inr (s1\<lparr>vhandles := (vhandles s1)[this := None]\<rparr>))"

text \<open>
  The destructor of a member handle: \<open>~VSharedPtr()\<close> again, with one level of nesting
  less to go.
\<close>

primrec member_dtor :: "build \<Rightarrow> nat \<Rightarrow> member_dtor" where
  "member_dtor b 0 = (\<lambda>s h. Inl Out_of_fuel)"
| "member_dtor b (Suc n) = dtor (member_dtor b n) b"

text \<open>
  \<open>swap\<close>: the two exchanges and the two stores of the thread-safe build, run alone,
  are the two \<open>std::swap\<close> of the other build.
\<close>

definition swap_handles :: "rc_state \<Rightarrow> nat \<Rightarrow> nat \<Rightarrow> rc_error + rc_state" where
  "swap_handles s this other =
     (case (handle_at s this, handle_at s other) of
        (Some p, Some q) \<Rightarrow> Inr (put_handle (put_handle s this q) other p)
      | _ \<Rightarrow> Inl Undefined)"

text \<open>\<open>operator=(const VSharedPtr& o) noexcept\<close>: copy into a temporary, swap, drop it.\<close>

definition copy_assign :: "member_dtor \<Rightarrow> build \<Rightarrow> rc_state \<Rightarrow> nat \<Rightarrow> nat \<Rightarrow> rc_error + rc_state" where
  "copy_assign D b s this other =
     (if this = other then (case handle_at s this of None \<Rightarrow> Inl Undefined | Some p \<Rightarrow> Inr s)
      else
        (case copy_ctor b s other of
           Inl e \<Rightarrow> Inl e
         | Inr (tmp, s1) \<Rightarrow>
             (case swap_handles s1 this tmp of
                Inl e \<Rightarrow> Inl e
              | Inr s2 \<Rightarrow> dtor D b s2 tmp)))"

text \<open>
  \<open>operator=(VSharedPtr&& o) noexcept\<close>: the release comes first; the stores that follow
  it need both handles to have outlived it.
\<close>

definition move_assign :: "member_dtor \<Rightarrow> build \<Rightarrow> rc_state \<Rightarrow> nat \<Rightarrow> nat \<Rightarrow> rc_error + rc_state" where
  "move_assign D b s this other =
     (if this = other then (case handle_at s this of None \<Rightarrow> Inl Undefined | Some p \<Rightarrow> Inr s)
      else
        (case VSharedPtr_release D b s this of
           Inl e \<Rightarrow> Inl e
         | Inr s1 \<Rightarrow>
             (case (handle_at s1 this, handle_at s1 other) of
                (Some p, Some q) \<Rightarrow>
                  Inr (put_handle (put_handle s1 other null_handle) this
                         \<lparr>ctrl = ctrl q, is_weak = is_weak q\<rparr>)
              | _ \<Rightarrow> Inl Undefined)))"

text \<open>\<open>reset() noexcept\<close>, which is also \<open>operator=(std::nullptr_t)\<close>\<close>

definition reset :: "member_dtor \<Rightarrow> build \<Rightarrow> rc_state \<Rightarrow> nat \<Rightarrow> rc_error + rc_state" where
  "reset D b s this =
     (case VSharedPtr_release D b s this of
        Inl e \<Rightarrow> Inl e
      | Inr s1 \<Rightarrow>
          (case handle_at s1 this of
             None \<Rightarrow> Inl Undefined
           | Some p \<Rightarrow> Inr (put_handle s1 this null_handle)))"

text \<open>\<open>reset(Elem* ptr)\<close>\<close>

definition reset_ptr ::
  "member_dtor \<Rightarrow> build \<Rightarrow> rc_state \<Rightarrow> nat \<Rightarrow> addr option \<Rightarrow> addr option \<Rightarrow> bool
     \<Rightarrow> rc_error + rc_state" where
  "reset_ptr D b s this p cb arr =
     (case ctor_raw s p cb arr of
        Inl e \<Rightarrow> Inl e
      | Inr (tmp, s1) \<Rightarrow>
          (case swap_handles s1 this tmp of
             Inl e \<Rightarrow> Inl e
           | Inr s2 \<Rightarrow> dtor D b s2 tmp))"

text \<open>\<open>make_weak(const VSharedPtr& strong_ref)\<close>; the handle it is called on plays no part.\<close>

definition make_weak :: "build \<Rightarrow> rc_state \<Rightarrow> nat \<Rightarrow> rc_error + (nat \<times> rc_state)" where
  "make_weak b s strong_ref =
     (case handle_at s strong_ref of
        None \<Rightarrow> Inl Undefined
      | Some q \<Rightarrow>
          (case ctrl q of
             None \<Rightarrow> Inr (new_handle s null_handle)
           | Some c \<Rightarrow>
               if is_weak q then Inr (new_handle s null_handle)
               else
                 (case add_weak b s c of
                    Inl e \<Rightarrow> Inl e
                  | Inr s1 \<Rightarrow> Inr (new_handle s1 \<lparr>ctrl = Some c, is_weak = True\<rparr>))))"

text \<open>\<open>lock()\<close>\<close>

definition lock :: "build \<Rightarrow> rc_state \<Rightarrow> nat \<Rightarrow> rc_error + (nat \<times> rc_state)" where
  "lock b s this =
     (case handle_at s this of
        None \<Rightarrow> Inl Undefined
      | Some p \<Rightarrow>
          if \<not> is_weak p then copy_ctor b s this
          else
            (case ctrl p of
               None \<Rightarrow> Inr (new_handle s null_handle)
             | Some c \<Rightarrow>
                 (case try_add_strong s c of
                    Inl e \<Rightarrow> Inl e
                  | Inr (ok, s1) \<Rightarrow>
                      if ok then Inr (new_handle s1 \<lparr>ctrl = Some c, is_weak = False\<rparr>)
                      else Inr (new_handle s1 null_handle))))"

text \<open>\<open>weak(const VSharedPtr& other)\<close>\<close>

definition weak :: "member_dtor \<Rightarrow> build \<Rightarrow> rc_state \<Rightarrow> nat \<Rightarrow> nat \<Rightarrow> rc_error + rc_state" where
  "weak D b s this other =
     (if this = other then (case handle_at s this of None \<Rightarrow> Inl Undefined | Some p \<Rightarrow> Inr s)
      else
        (case VSharedPtr_release D b s this of
           Inl e \<Rightarrow> Inl e
         | Inr s1 \<Rightarrow>
             (case (handle_at s1 this, handle_at s1 other) of
                (Some p, Some q) \<Rightarrow>
                  (case ctrl q of
                     None \<Rightarrow> Inr (put_handle s1 this null_handle)
                   | Some c \<Rightarrow>
                       if is_weak q then Inr (put_handle s1 this null_handle)
                       else
                         (case add_weak b s1 c of
                            Inl e \<Rightarrow> Inl e
                          | Inr s2 \<Rightarrow> Inr (put_handle s2 this \<lparr>ctrl = Some c, is_weak = True\<rparr>)))
              | _ \<Rightarrow> Inl Undefined)))"

text \<open>The observers \<open>get\<close>, \<open>expired\<close>, \<open>operator bool\<close> and the two \<open>operator==\<close>.\<close>

definition get :: "rc_state \<Rightarrow> nat \<Rightarrow> rc_error + addr option" where
  "get s this =
     (case handle_at s this of
        None \<Rightarrow> Inl Undefined
      | Some p \<Rightarrow>
          (case ctrl p of
             None \<Rightarrow> Inr None
           | Some c \<Rightarrow>
               if is_weak p then Inr None
               else (case blocks s c of None \<Rightarrow> Inl Undefined | Some cb \<Rightarrow> Inr (cb_ptr cb))))"

definition expired :: "rc_state \<Rightarrow> nat \<Rightarrow> rc_error + bool" where
  "expired s this =
     (case handle_at s this of
        None \<Rightarrow> Inl Undefined
      | Some p \<Rightarrow>
          (case ctrl p of
             None \<Rightarrow> Inr True
           | Some c \<Rightarrow>
               (case blocks s c of
                  None \<Rightarrow> Inl Undefined
                | Some cb \<Rightarrow> Inr (\<not> 0 < gc_strong_count cb))))"

definition operator_bool :: "rc_state \<Rightarrow> nat \<Rightarrow> rc_error + bool" where
  "operator_bool s this =
     (case handle_at s this of
        None \<Rightarrow> Inl Undefined
      | Some p \<Rightarrow>
          if is_weak p then map_sum id Not (expired s this)
          else map_sum id (\<lambda>g. g \<noteq> None) (get s this))"

definition operator_eq :: "rc_state \<Rightarrow> nat \<Rightarrow> nat \<Rightarrow> rc_error + bool" where
  "operator_eq s this other =
     (case get s this of
        Inl e \<Rightarrow> Inl e
      | Inr g1 \<Rightarrow> (case get s other of Inl e \<Rightarrow> Inl e | Inr g2 \<Rightarrow> Inr (g1 = g2)))"

definition operator_eq_nullptr :: "rc_state \<Rightarrow> nat \<Rightarrow> rc_error + bool" where
  "operator_eq_nullptr s this = map_sum id (\<lambda>g. g = None) (get s this)"

subsection \<open>operator-> and LockedProxy\<close>

text \<open>
  A \<open>LockedProxy\<close> holds the pointer and a \<open>std::unique_lock<std::shared_mutex>\<close>.
  \<open>lock_owns\<close> is the block whose mutex the lock owns, if it owns one.
\<close>

record LockedProxy =
  proxy_ptr :: "addr option"
  lock_owns :: "addr option"

text \<open>
  \<open>LockedProxy(T* ptr, std::shared_mutex& mtx)\<close>: the member \<open>lock_\<close> locks the mutex,
  then the body rejects a null pointer (the unwinding then unlocks).
\<close>

definition LockedProxy_ctor ::
  "build \<Rightarrow> rc_state \<Rightarrow> addr option \<Rightarrow> addr \<Rightarrow> rc_error + (LockedProxy \<times> rc_state)" where
  "LockedProxy_ctor b s p c =
     (case blocks s c of
        None \<Rightarrow> Inl Undefined
      | Some cb \<Rightarrow>
          if object_mutex cb \<noteq> Unlocked then Inl Blocked
          else if p = None then Inl (throw_or_abort b ''LockedProxy: null pointer'')
          else Inr (\<lparr>proxy_ptr = p, lock_owns = Some c\<rparr>,
                    s\<lparr>blocks := (blocks s)(c \<mapsto> cb\<lparr>object_mutex := Locked_exclusive\<rparr>)\<rparr>))"

text \<open>The destructor of the proxy is the one of its lock.\<close>

definition LockedProxy_dtor :: "rc_state \<Rightarrow> LockedProxy \<Rightarrow> rc_error + rc_state" where
  "LockedProxy_dtor s px =
     (case lock_owns px of
        None \<Rightarrow> Inr s
      | Some c \<Rightarrow>
          (case blocks s c of
             None \<Rightarrow> Inl Undefined
           | Some cb \<Rightarrow> Inr (s\<lparr>blocks := (blocks s)(c \<mapsto> cb\<lparr>object_mutex := Unlocked\<rparr>)\<rparr>)))"

datatype arrow_result = Proxy LockedProxy | Raw "addr option"

text \<open>\<open>operator->()\<close>\<close>

definition operator_arrow :: "build \<Rightarrow> rc_state \<Rightarrow> nat \<Rightarrow> rc_error + (arrow_result \<times> rc_state)" where
  "operator_arrow b s this =
     (case handle_at s this of
        None \<Rightarrow> Inl Undefined
      | Some p \<Rightarrow>
          if is_weak p then Inl (throw_or_abort b ''operator->: cannot dereference weak pointer'')
          else
            (case ctrl p of
               None \<Rightarrow> Inl (throw_or_abort b ''operator->: null pointer dereference'')
             | Some c \<Rightarrow>
                 (case blocks s c of
                    None \<Rightarrow> Inl Undefined
                  | Some cb \<Rightarrow>
                      if TM b = TM_True then
                        (case LockedProxy_ctor b s (cb_ptr cb) c of
                           Inl e \<Rightarrow> Inl e
                         | Inr (px, s1) \<Rightarrow> Inr (Proxy px, s1))
                      else Inr (Raw (cb_ptr cb), s))))"

section \<open>Notions of the specification\<close>

text \<open>A shared (read) lock is held on the mutex of a block.\<close>

definition holds_shared_lock :: "rc_state \<Rightarrow> addr \<Rightarrow> bool" where
  "holds_shared_lock s c =
     (case blocks s c of
        None \<Rightarrow> False
      | Some cb \<Rightarrow> (case object_mutex cb of Locked_shared n \<Rightarrow> 0 < n | _ \<Rightarrow> False))"











section \<open>Example states\<close>

definition build_ts :: build where
  "build_ts = \<lparr>TM = TM_True, safety_checks_enabled = True\<rparr>"

text \<open>One object behind one strong and two weak handles.\<close>

definition rc_example :: rc_state where
  "rc_example =
     \<lparr>blocks = [7 \<mapsto> (ControlBlock_ctor (Some 100) False)\<lparr>gc_weak_count := 2\<rparr>],
      vhandles = [Some \<lparr>ctrl = Some 7, is_weak = False\<rparr>, Some \<lparr>ctrl = Some 7, is_weak = True\<rparr>,
                  Some \<lparr>ctrl = Some 7, is_weak = True\<rparr>],
      members = Map.empty,
      rc_trace = []\<rparr>"

text \<open>One object behind one strong handle.\<close>

definition rc_single :: rc_state where
  "rc_single =
     \<lparr>blocks = [7 \<mapsto> ControlBlock_ctor (Some 100) False],
      vhandles = [Some \<lparr>ctrl = Some 7, is_weak = False\<rparr>],
      members = Map.empty,
      rc_trace = []\<rparr>"

text \<open>The state behind \<open>make_weak\<close> on the strong handle of \<open>rc_single\<close>.\<close>

definition rc_weakened :: rc_state where
  "rc_weakened =
     \<lparr>blocks = [7 \<mapsto> (ControlBlock_ctor (Some 100) False)\<lparr>gc_weak_count := 1\<rparr>],
      vhandles = [Some \<lparr>ctrl = Some 7, is_weak = False\<rparr>, Some \<lparr>ctrl = Some 7, is_weak = True\<rparr>],
      members = Map.empty,
      rc_trace = []\<rparr>"

text \<open>The strong handle is gone and the object with it; one weak handle is left.\<close>

definition rc_expired :: rc_state where
  "rc_expired =
     \<lparr>blocks = [7 \<mapsto> (ControlBlock_ctor None False)
                 \<lparr>gc_strong_count := 0, gc_weak_count := 1, object_destroyed := True\<rparr>],
      vhandles = [None, Some \<lparr>ctrl = Some 7, is_weak = True\<rparr>],
      members = Map.empty,
      rc_trace = []\<rparr>"

text \<open>\<open>rc_single\<close> while a view of \<open>operator->\<close> is alive.\<close>

definition rc_locked :: rc_state where
  "rc_locked =
     \<lparr>blocks = [7 \<mapsto> (ControlBlock_ctor (Some 100) False)\<lparr>object_mutex := Locked_exclusive\<rparr>],
      vhandles = [Some \<lparr>ctrl = Some 7, is_weak = False\<rparr>],
      members = Map.empty,
      rc_trace = []\<rparr>"

definition build_fast :: build where
  "build_fast = \<lparr>TM = TM_False, safety_checks_enabled = True\<rparr>"

text \<open>
  Two registered objects, the first held by the root handle at 10, the second held by
  nothing; the handle at 20 is a null root. The countdown stands at 1.
\<close>

definition tc_example :: gc_state where
  "tc_example =
     \<lparr>objects = fmupd 1000 \<lparr>end_addr = 1048, destructor = Destroy_at, root_ref_cnt = 1, first = [], mark = False\<rparr>
                 (fmupd 2000 \<lparr>end_addr = 2048, destructor = Destroy_at, root_ref_cnt = 0, first = [], mark = False\<rparr> fmempty),
      handles = [10 \<mapsto> \<lparr>type = ROOT, object = Some 1000, ptr = Some 1040\<rparr>,
                 20 \<mapsto> \<lparr>type = ROOT, object = None, ptr = None\<rparr>],
      all_objects = [1000, 2000],
      gc_counter = 1,
      current = None,
      finalised = [],
      payload_log = []\<rparr>"

text \<open>The same with the countdown at 0.\<close>

definition tc_due :: gc_state where
  "tc_due = tc_example\<lparr>gc_counter := 0\<rparr>"

text \<open>Nothing is registered and the countdown stands at 0.\<close>

definition tc_empty :: gc_state where
  "tc_empty =
     \<lparr>objects = fmempty, handles = Map.empty, all_objects = [], gc_counter = 0, current = None,
      finalised = [], payload_log = []\<rparr>"

text \<open>The constructor of element \<open>k\<close> throws, the others return.\<close>

definition throws_at :: "nat \<Rightarrow> nat \<Rightarrow> bool" where
  "throws_at k i = (i \<noteq> k)"

text \<open>
  \<open>tc_example\<close> behind an allocation, for the new root handle at 30, of an array of four
  elements of size 8 at 3000, in which the constructor of element 2 threw.
\<close>

definition tc_failed :: gc_state where
  "tc_failed =
     \<lparr>objects = fmupd 3000 \<lparr>end_addr = 3072, destructor = Destroy_reverse 8, root_ref_cnt = 0,
                              first = [], mark = False\<rparr>
                 (fmupd 1000 \<lparr>end_addr = 1048, destructor = Destroy_at, root_ref_cnt = 1, first = [], mark = False\<rparr>
                 (fmupd 2000 \<lparr>end_addr = 2048, destructor = Destroy_at, root_ref_cnt = 0, first = [], mark = False\<rparr> fmempty)),
      handles = [10 \<mapsto> \<lparr>type = ROOT, object = Some 1000, ptr = Some 1040\<rparr>,
                 20 \<mapsto> \<lparr>type = ROOT, object = None, ptr = None\<rparr>,
                 30 \<mapsto> \<lparr>type = ROOT, object = None, ptr = None\<rparr>],
      all_objects = [1000, 2000, 3000],
      gc_counter = 0,
      current = None,
      finalised = [],
      payload_log = [Constructed 3000 0, Constructed 3000 1, Destroyed 3000 0, Destroyed 3000 1]\<rparr>"



text \<open>
  A list of two nodes: handle 0 (\<open>p\<close>) holds the node at 100, whose member \<open>next\<close>
  (handle 1) holds the node at 200, whose member \<open>next\<close> (handle 2) is null.
\<close>

definition rc_list :: rc_state where
  "rc_list =
     \<lparr>blocks = [7 \<mapsto> ControlBlock_ctor (Some 100) False, 8 \<mapsto> ControlBlock_ctor (Some 200) False],
      vhandles = [Some \<lparr>ctrl = Some 7, is_weak = False\<rparr>, Some \<lparr>ctrl = Some 8, is_weak = False\<rparr>,
                  Some null_handle],
      members = [100 \<mapsto> [1], 200 \<mapsto> [2]],
      rc_trace = []\<rparr>"

section \<open>The tracing collector: theorems\<close>

subsection \<open>The collection cycle\<close>




















subsection \<open>Moves between root handles\<close>

text \<open>
  Claim C9. A move assignment between two ROOT handles swaps the referents of the two
  handles: the destination then refers to what the source referred to, and the source
  to what the destination referred to. A move construction of a ROOT handle from
  another ROOT handle gives the new handle the referent of the source and leaves the
  source null. Nothing else of the state changes in either: every header is as it was,
  so no \<open>root_ref_cnt\<close> is incremented or decremented.
\<close>

theorem root_move_transfers:
  "(\<forall>p q. handles s this = Some p \<and> handles s src = Some q \<and> type p = ROOT \<and> type q = ROOT \<longrightarrow>
      gc_base_ptr_move_assign s this src
        = Some (s\<lparr>handles := (handles s)(this \<mapsto> p\<lparr>object := object q\<rparr>,
                                             src \<mapsto> q\<lparr>object := object p\<rparr>)\<rparr>))
   \<and> (\<forall>q. classify s this = Some ROOT \<and> handles s src = Some q \<and> type q = ROOT \<and> this \<noteq> src \<longrightarrow>
      gc_base_ptr_move_ctor s this src
        = Some (s\<lparr>handles := (handles s)(this \<mapsto> \<lparr>type = ROOT, object = object q, ptr = None\<rparr>,
                                             src \<mapsto> q\<lparr>object := None\<rparr>)\<rparr>))"
proof (intro conjI allI impI)
  fix p q
  assume a: "handles s this = Some p \<and> handles s src = Some q \<and> type p = ROOT \<and> type q = ROOT"
  show "gc_base_ptr_move_assign s this src
        = Some (s\<lparr>handles := (handles s)(this \<mapsto> p\<lparr>object := object q\<rparr>,
                                             src \<mapsto> q\<lparr>object := object p\<rparr>)\<rparr>)"
  proof (cases "object p = object q")
    case True
    have p: "p\<lparr>object := object q\<rparr> = p" and q: "q\<lparr>object := object p\<rparr> = q"
      using True by simp_all
    have "(handles s)(this \<mapsto> p\<lparr>object := object q\<rparr>, src \<mapsto> q\<lparr>object := object p\<rparr>) = handles s"
      unfolding p q using a by (auto simp: fun_upd_idem)
    then have "s\<lparr>handles := (handles s)(this \<mapsto> p\<lparr>object := object q\<rparr>,
        src \<mapsto> q\<lparr>object := object p\<rparr>)\<rparr> = s"
      by simp
    moreover have "gc_base_ptr_move_assign s this src = Some s"
      using a True by (simp add: gc_base_ptr_move_assign_def)
    ultimately show ?thesis
      by simp
  next
    case False
    then have "this \<noteq> src"
      using a by auto
    then show ?thesis
      using a False by (simp add: gc_base_ptr_move_assign_def store_object_def)
  qed
next
  fix q
  assume a: "classify s this = Some ROOT \<and> handles s src = Some q \<and> type q = ROOT \<and> this \<noteq> src"
  show "gc_base_ptr_move_ctor s this src
        = Some (s\<lparr>handles := (handles s)(this \<mapsto> \<lparr>type = ROOT, object = object q, ptr = None\<rparr>,
                                             src \<mapsto> q\<lparr>object := None\<rparr>)\<rparr>)"
  proof (cases "object q")
    case None
    then have q: "q\<lparr>object := None\<rparr> = q"
      by (cases q) simp
    have "(handles s)(this \<mapsto> \<lparr>type = ROOT, object = None, ptr = None\<rparr>, src \<mapsto> q\<lparr>object := None\<rparr>)
        = (handles s)(this \<mapsto> \<lparr>type = ROOT, object = None, ptr = None\<rparr>)"
      unfolding q using a by (auto simp: fun_upd_idem)
    moreover have "gc_base_ptr_move_ctor s this src
        = Some (s\<lparr>handles := (handles s)(this \<mapsto> \<lparr>type = ROOT, object = None, ptr = None\<rparr>)\<rparr>)"
      using a None by (simp add: gc_base_ptr_move_ctor_def)
    ultimately show ?thesis
      using None by simp
  next
    case (Some b)
    then show ?thesis
      using a by (simp add: gc_base_ptr_move_ctor_def store_object_def)
  qed
qed

theorem root_move_transfers_witness:
  "gc_base_ptr_move_assign tc_example 20 10
     = Some (tc_example\<lparr>handles := [10 \<mapsto> \<lparr>type = ROOT, object = None, ptr = Some 1040\<rparr>,
                                      20 \<mapsto> \<lparr>type = ROOT, object = Some 1000, ptr = None\<rparr>]\<rparr>)
   \<and> gc_base_ptr_move_ctor tc_example 30 10
     = Some (tc_example\<lparr>handles := [10 \<mapsto> \<lparr>type = ROOT, object = None, ptr = Some 1040\<rparr>,
                                      20 \<mapsto> \<lparr>type = ROOT, object = None, ptr = None\<rparr>,
                                      30 \<mapsto> \<lparr>type = ROOT, object = Some 1000, ptr = None\<rparr>]\<rparr>)"
proof -
  have h10: "handles tc_example 10 = Some \<lparr>type = ROOT, object = Some 1000, ptr = Some 1040\<rparr>"
    and h20: "handles tc_example 20 = Some \<lparr>type = ROOT, object = None, ptr = None\<rparr>"
    and c30: "classify tc_example 30 = Some ROOT"
    and hs: "handles tc_example = [10 \<mapsto> \<lparr>type = ROOT, object = Some 1000, ptr = Some 1040\<rparr>,
                 20 \<mapsto> \<lparr>type = ROOT, object = None, ptr = None\<rparr>]"
    by (simp_all add: tc_example_def classify_def)
  have "gc_base_ptr_move_assign tc_example 20 10
     = Some (tc_example\<lparr>handles := [10 \<mapsto> \<lparr>type = ROOT, object = None, ptr = Some 1040\<rparr>,
                                      20 \<mapsto> \<lparr>type = ROOT, object = Some 1000, ptr = None\<rparr>]\<rparr>)"
    using root_move_transfers [of tc_example 20 10] h10 h20
    by (simp add: hs fun_upd_twist)
  moreover have "gc_base_ptr_move_ctor tc_example 30 10
     = Some (tc_example\<lparr>handles := [10 \<mapsto> \<lparr>type = ROOT, object = None, ptr = Some 1040\<rparr>,
                                      20 \<mapsto> \<lparr>type = ROOT, object = None, ptr = None\<rparr>,
                                      30 \<mapsto> \<lparr>type = ROOT, object = Some 1000, ptr = None\<rparr>]\<rparr>)"
    using root_move_transfers [of tc_example 30 10] h10 c30
    by (simp add: hs fun_upd_twist)
  ultimately show ?thesis
    by simp
qed

subsection \<open>The factories behind the trigger\<close>

lemma gc_base_ptr_ctor_handle:
  assumes "gc_base_ptr_ctor s this None = Some s0"
  shows "\<exists>p. handles s0 this = Some p \<and> object p = None \<and> ptr p = None"
  using assms
  by (auto simp: gc_base_ptr_ctor_def link_heap_ptr_def split: option.splits PtrType.splits)

lemma gc_collect_frame:
  assumes "gc_collect s = Some s'"
  shows "handles s' = handles s \<and> current s' = current s"
  using assms
  by (auto simp: gc_collect_def Let_def split: if_splits option.splits)

lemma gc_collect_counter:
  assumes "gc_collect s = Some s'"
  shows "gc_counter s' = (if all_objects s = [] then gc_counter s
                          else max (int (length (all_objects s')) * 2) 1024)"
  using assms
  by (auto simp: gc_collect_def Let_def split: if_splits option.splits)

lemma unwind_new_registered:
  assumes "handles s3 this = Some p" "fmlookup (objects s3) mem = Some ob"
  shows "\<exists>r. unwind_new s3 this mem parent = Some r \<and> all_objects r = all_objects s3
     \<and> gc_counter r = gc_counter s3 \<and> finalised r = finalised s3 \<and> payload_log r = payload_log s3
     \<and> current r = parent \<and> handles r this = Some (p\<lparr>object := None, ptr := None\<rparr>)
     \<and> fmlookup (objects r) mem
          = Some (if type p = ROOT then ob\<lparr>root_ref_cnt := root_ref_cnt ob - 1\<rparr> else ob)"
  using assms
  by (auto simp: unwind_new_def dec_root_def store_object_def store_ptr_def)

lemma New_after_trigger:
  assumes c: "gc_base_ptr_ctor s this None = Some s0"
    and t: "(if gc_counter s0 - 1 < 0 then gc_collect (s0\<lparr>gc_counter := gc_counter s0 - 1\<rparr>)
             else Some (s0\<lparr>gc_counter := gc_counter s0 - 1\<rparr>)) = Some s2"
  shows "\<exists>r. New s this mem sizeof_T ok1 = Some r \<and> gc_counter (outcome_state r) = gc_counter s2
     \<and> all_objects (outcome_state r) = all_objects s2 @ [mem]
     \<and> finalised (outcome_state r) = finalised s2"
proof -
  from gc_base_ptr_ctor_handle [OF c] obtain p where p: "handles s0 this = Some p"
    by blast
  have h: "handles s2 this = Some p"
    using t p gc_collect_frame [of "s0\<lparr>gc_counter := gc_counter s0 - 1\<rparr>" s2]
    by (auto split: if_splits)
  obtain s3 where s3: "register_object s2 this mem (mem + sizeof_gc_object + sizeof_T) Destroy_at = Some s3"
    and s3f: "all_objects s3 = all_objects s2 @ [mem]" "gc_counter s3 = gc_counter s2"
      "finalised s3 = finalised s2" "handles s3 this = Some (p\<lparr>object := Some mem\<rparr>)"
      "fmlookup (objects s3) mem \<noteq> None"
    using h by (auto simp: register_object_def)
  obtain s4 where s4: "store_ptr (s3\<lparr>current := Some mem\<rparr>) this (Some (start mem)) = Some s4"
    and s4f: "all_objects s4 = all_objects s3" "gc_counter s4 = gc_counter s3"
      "finalised s4 = finalised s3" "handles s4 this \<noteq> None" "objects s4 = objects s3"
    using s3f by (auto simp: store_ptr_def)
  show ?thesis
  proof (cases ok1)
    case True
    then show ?thesis
      using c t s3 s4 s3f s4f by (simp add: New_def Let_def)
  next
    case False
    from s4f s3f obtain p4 ob where "handles s4 this = Some p4" "fmlookup (objects s4) mem = Some ob"
      by auto
    from unwind_new_registered [OF this, of "current s3"] obtain r where
      "unwind_new s4 this mem (current s3) = Some r" "all_objects r = all_objects s4"
      "gc_counter r = gc_counter s4" "finalised r = finalised s4"
      by blast
    then show ?thesis
      using False c t s3 s4 s3f s4f by (simp add: New_def Let_def)
  qed
qed

lemma New_array_after_trigger:
  assumes c: "gc_base_ptr_ctor s this None = Some s0"
    and p: "handles s0 this = Some p"
    and t: "(if gc_counter s0 \<le> 0 then gc_collect (s0\<lparr>gc_counter := gc_counter s0 - 1\<rparr>)
             else Some (s0\<lparr>gc_counter := gc_counter s0 - 1\<rparr>)) = Some s2"
    and ce: "construct_elements ok mem 0 n (payload_log s2) = (constructed_end, threw, lg)"
  shows "\<exists>r. New_array s this mem n sizeof_T ok = Some (if threw then Thrown r else Returned r)
     \<and> gc_counter r = gc_counter s2
     \<and> all_objects r = all_objects s2 @ [mem]
     \<and> finalised r = finalised s2
     \<and> current r = current s2
     \<and> payload_log r = (if threw then lg @ std_destroy mem 0 constructed_end else lg)
     \<and> handles r this = Some (if threw then p\<lparr>object := None, ptr := None\<rparr>
                               else p\<lparr>object := Some mem, ptr := Some (start mem)\<rparr>)
     \<and> fmlookup (objects r) mem
          = Some \<lparr>end_addr = mem + sizeof_gc_object + n * sizeof_T,
                   destructor = Destroy_reverse sizeof_T,
                   root_ref_cnt = (if type p = ROOT \<and> \<not> threw then 1 else 0),
                   first = [], mark = False\<rparr>"
proof -
  have h: "handles s2 this = Some p"
    using t p gc_collect_frame [of "s0\<lparr>gc_counter := gc_counter s0 - 1\<rparr>" s2]
    by (auto split: if_splits)
  define ob where "ob = \<lparr>end_addr = mem + sizeof_gc_object + n * sizeof_T,
      destructor = Destroy_reverse sizeof_T, root_ref_cnt = (if type p = ROOT then 1 else 0), first = [], mark = False\<rparr>"
  obtain s3 where s3: "register_object s2 this mem (mem + sizeof_gc_object + n * sizeof_T)
      (Destroy_reverse sizeof_T) = Some s3"
    and s3f: "all_objects s3 = all_objects s2 @ [mem]" "gc_counter s3 = gc_counter s2"
      "finalised s3 = finalised s2" "handles s3 this = Some (p\<lparr>object := Some mem\<rparr>)"
      "fmlookup (objects s3) mem = Some ob" "current s3 = current s2" "payload_log s3 = payload_log s2"
    using h by (auto simp: register_object_def ob_def)
  obtain s4 where s4: "store_ptr (s3\<lparr>current := Some mem\<rparr>) this (Some (start mem)) = Some s4"
    and s4f: "all_objects s4 = all_objects s3" "gc_counter s4 = gc_counter s3"
      "finalised s4 = finalised s3"
      "handles s4 this = Some (p\<lparr>object := Some mem, ptr := Some (start mem)\<rparr>)"
      "objects s4 = objects s3" "payload_log s4 = payload_log s3"
    using s3f by (auto simp: store_ptr_def)
  have ce4: "construct_elements ok mem 0 n (payload_log s4) = (constructed_end, threw, lg)"
    using ce s4f s3f by simp
  show ?thesis
  proof (cases threw)
    case False
    then show ?thesis
      using c t s3 s4 s3f s4f ce4 by (simp add: New_array_def Let_def ob_def)
  next
    case True
    let ?s5 = "s4\<lparr>payload_log := lg @ std_destroy mem 0 constructed_end\<rparr>"
    have "handles ?s5 this = Some (p\<lparr>object := Some mem, ptr := Some (start mem)\<rparr>)"
      "fmlookup (objects ?s5) mem = Some ob"
      using s4f s3f by simp_all
    from unwind_new_registered [OF this, of "current s3"] obtain r where
      "unwind_new ?s5 this mem (current s3) = Some r" "all_objects r = all_objects ?s5"
      "gc_counter r = gc_counter ?s5" "finalised r = finalised ?s5" "payload_log r = payload_log ?s5"
      "current r = current s3"
      "handles r this = Some (p\<lparr>object := Some mem, ptr := Some (start mem)\<rparr>\<lparr>object := None, ptr := None\<rparr>)"
      "fmlookup (objects r) mem = Some (if type p = ROOT then ob\<lparr>root_ref_cnt := root_ref_cnt ob - 1\<rparr> else ob)"
      by auto
    then show ?thesis
      using True c t s3 s4 s3f s4f ce4 by (simp add: New_array_def Let_def ob_def)
  qed
qed

text \<open>
  Claim C5, as the code has it. Every allocation decrements the countdown by one. When
  the value before the decrement was positive, nothing else happens to the counter and
  no collection runs, also when the decremented value is 0. When it was not positive
  (the decremented value is negative) a collection runs in front of the registration
  of the new header; that collection sets the counter to \<open>max (2 * live) 1024\<close>, unless the
  registry was empty, in which case it returns at once and the counter keeps the
  decremented value.
\<close>

theorem allocation_trigger:
  assumes "gc_base_ptr_ctor s this None = Some s0"
  shows "(0 < gc_counter s0 \<longrightarrow>
            (\<exists>r. New s this mem sizeof_T ctor_ok = Some r
               \<and> gc_counter (outcome_state r) = gc_counter s0 - 1
               \<and> all_objects (outcome_state r) = all_objects s0 @ [mem]
               \<and> finalised (outcome_state r) = finalised s0)
          \<and> (\<exists>r. New_array s this mem n sizeof_T ctors_ok = Some r
               \<and> gc_counter (outcome_state r) = gc_counter s0 - 1
               \<and> all_objects (outcome_state r) = all_objects s0 @ [mem]
               \<and> finalised (outcome_state r) = finalised s0))
     \<and> (gc_counter s0 \<le> 0 \<longrightarrow>
          (\<forall>s2. gc_collect (s0\<lparr>gc_counter := gc_counter s0 - 1\<rparr>) = Some s2 \<longrightarrow>
             gc_counter s2 = (if all_objects s0 = [] then gc_counter s0 - 1
                              else max (2 * int (length (all_objects s2))) 1024)
           \<and> (\<exists>r. New s this mem sizeof_T ctor_ok = Some r
               \<and> gc_counter (outcome_state r) = gc_counter s2
               \<and> all_objects (outcome_state r) = all_objects s2 @ [mem]
               \<and> finalised (outcome_state r) = finalised s2)
           \<and> (\<exists>r. New_array s this mem n sizeof_T ctors_ok = Some r
               \<and> gc_counter (outcome_state r) = gc_counter s2
               \<and> all_objects (outcome_state r) = all_objects s2 @ [mem]
               \<and> finalised (outcome_state r) = finalised s2)))"
proof (intro conjI impI allI)
  from gc_base_ptr_ctor_handle [OF assms] obtain p where p: "handles s0 this = Some p"
    by blast
  {
    assume pos: "0 < gc_counter s0"
    let ?s1 = "s0\<lparr>gc_counter := gc_counter s0 - 1\<rparr>"
    have t: "(if gc_counter s0 - 1 < 0 then gc_collect ?s1 else Some ?s1) = Some ?s1"
      using pos by simp
    from New_after_trigger [OF assms t]
    show "\<exists>r. New s this mem sizeof_T ctor_ok = Some r
               \<and> gc_counter (outcome_state r) = gc_counter s0 - 1
               \<and> all_objects (outcome_state r) = all_objects s0 @ [mem]
               \<and> finalised (outcome_state r) = finalised s0"
      by simp
    have t': "(if gc_counter s0 \<le> 0 then gc_collect ?s1 else Some ?s1) = Some ?s1"
      using pos by simp
    obtain ce threw lg where
      ce: "construct_elements ctors_ok mem 0 n (payload_log ?s1) = (ce, threw, lg)"
      by (metis prod_cases3)
    from New_array_after_trigger [OF assms p t' ce, where sizeof_T = sizeof_T]
    show "\<exists>r. New_array s this mem n sizeof_T ctors_ok = Some r
               \<and> gc_counter (outcome_state r) = gc_counter s0 - 1
               \<and> all_objects (outcome_state r) = all_objects s0 @ [mem]
               \<and> finalised (outcome_state r) = finalised s0"
      by (cases threw) auto
  }
  fix s2
  assume neg: "gc_counter s0 \<le> 0"
    and col: "gc_collect (s0\<lparr>gc_counter := gc_counter s0 - 1\<rparr>) = Some s2"
  let ?s1 = "s0\<lparr>gc_counter := gc_counter s0 - 1\<rparr>"
  from gc_collect_counter [OF col]
  show "gc_counter s2 = (if all_objects s0 = [] then gc_counter s0 - 1
                              else max (2 * int (length (all_objects s2))) 1024)"
    by (simp add: mult.commute)
  have t: "(if gc_counter s0 - 1 < 0 then gc_collect ?s1 else Some ?s1) = Some s2"
    using neg col by simp
  from New_after_trigger [OF assms t]
  show "\<exists>r. New s this mem sizeof_T ctor_ok = Some r
               \<and> gc_counter (outcome_state r) = gc_counter s2
               \<and> all_objects (outcome_state r) = all_objects s2 @ [mem]
               \<and> finalised (outcome_state r) = finalised s2"
    by simp
  have t': "(if gc_counter s0 \<le> 0 then gc_collect ?s1 else Some ?s1) = Some s2"
    using neg col by simp
  obtain ce threw lg where
    ce: "construct_elements ctors_ok mem 0 n (payload_log s2) = (ce, threw, lg)"
    by (metis prod_cases3)
  from New_array_after_trigger [OF assms p t' ce, where sizeof_T = sizeof_T]
  show "\<exists>r. New_array s this mem n sizeof_T ctors_ok = Some r
               \<and> gc_counter (outcome_state r) = gc_counter s2
               \<and> all_objects (outcome_state r) = all_objects s2 @ [mem]
               \<and> finalised (outcome_state r) = finalised s2"
    by (cases threw) auto
qed

theorem allocation_trigger_witness:
  "(\<exists>r. New tc_example 30 3000 8 True = Some r \<and> gc_counter (outcome_state r) = 0
       \<and> all_objects (outcome_state r) = [1000, 2000, 3000] \<and> finalised (outcome_state r) = [])
   \<and> (\<exists>r. New_array tc_due 30 3000 4 8 (throws_at 2) = Some r \<and> gc_counter (outcome_state r) = 1024
       \<and> all_objects (outcome_state r) = [1000, 3000] \<and> finalised (outcome_state r) = [2000])"
proof -
  define h where "h = \<lparr>type = ROOT, object = None, ptr = None\<rparr>"
  have c1: "gc_base_ptr_ctor tc_example 30 None = Some (tc_example\<lparr>handles := (handles tc_example)(30 \<mapsto> h)\<rparr>)"
    by (simp add: gc_base_ptr_ctor_def classify_def tc_example_def h_def)
  have c2: "gc_base_ptr_ctor tc_due 30 None = Some (tc_due\<lparr>handles := (handles tc_due)(30 \<mapsto> h)\<rparr>)"
    by (simp add: gc_base_ptr_ctor_def classify_def tc_example_def tc_due_def h_def)
  let ?s1 = "tc_due\<lparr>handles := (handles tc_due)(30 \<mapsto> h), gc_counter := - 1\<rparr>"
  have "\<exists>s2. gc_collect ?s1 = Some s2 \<and> all_objects s2 = [1000] \<and> finalised s2 = [2000]"
    by (simp add: gc_collect_def tc_due_def tc_example_def is_marked_def)
  then obtain s2 where s2: "gc_collect ?s1 = Some s2" "all_objects s2 = [1000]" "finalised s2 = [2000]"
    by blast
  from allocation_trigger [OF c1, of 3000 8 True 4 "throws_at 2"]
  have "\<exists>r. New tc_example 30 3000 8 True = Some r \<and> gc_counter (outcome_state r) = 0
       \<and> all_objects (outcome_state r) = [1000, 2000, 3000] \<and> finalised (outcome_state r) = []"
    by (simp add: tc_example_def)
  moreover have g: "gc_counter (tc_due\<lparr>handles := (handles tc_due)(30 \<mapsto> h)\<rparr>) = 0"
    "all_objects (tc_due\<lparr>handles := (handles tc_due)(30 \<mapsto> h)\<rparr>) \<noteq> []"
    by (simp_all add: tc_example_def tc_due_def)
  have "gc_counter s2 = 1024 \<and> (\<exists>r. New_array tc_due 30 3000 4 8 (throws_at 2) = Some r
       \<and> gc_counter (outcome_state r) = gc_counter s2
       \<and> all_objects (outcome_state r) = all_objects s2 @ [3000]
       \<and> finalised (outcome_state r) = finalised s2)"
    using allocation_trigger [OF c2, of 3000 8 True 4 "throws_at 2"] s2 g
    by auto
  with s2 have "\<exists>r. New_array tc_due 30 3000 4 8 (throws_at 2) = Some r \<and> gc_counter (outcome_state r) = 1024
       \<and> all_objects (outcome_state r) = [1000, 3000] \<and> finalised (outcome_state r) = [2000]"
    by auto
  ultimately show ?thesis
    by blast
qed

text \<open>
  The claim as stated fails twice. With the countdown at 1 the decremented counter is 0,
  not positive, and no collection runs: the unreachable object stays registered and
  nothing is finalised, where a collection would have finalised it. With an empty
  registry and the countdown at 0 the collection does not recalibrate: the counter is
  \<open>-1\<close>, not 1024.
\<close>

theorem allocation_trigger_counterexample:
  "map_option (gc_counter \<circ> outcome_state) (New tc_example 30 3000 8 True) = Some 0
   \<and> map_option (all_objects \<circ> outcome_state) (New tc_example 30 3000 8 True) = Some [1000, 2000, 3000]
   \<and> map_option (finalised \<circ> outcome_state) (New tc_example 30 3000 8 True) = Some []
   \<and> map_option finalised (gc_collect tc_example) = Some [2000]
   \<and> map_option (gc_counter \<circ> outcome_state) (New tc_empty 30 3000 8 True) = Some (- 1)
   \<and> max (2 * int (length (all_objects tc_empty))) 1024 = 1024"
  by (simp add: New_def gc_base_ptr_ctor_def classify_def tc_example_def tc_empty_def Let_def
      register_object_def store_ptr_def gc_collect_def is_marked_def)

text \<open>
  Claim C4 does not hold of the code. When the constructor of an element of an array
  allocation throws, the \<open>catch\<close> block destroys the constructed prefix first element
  first, takes the root count of the header back, clears the creating handle and
  restores \<open>current\<close>; the header stays in the registry with its destructor thunk. The
  next collection finds it unreachable and runs the thunk, which destroys every slot
  of the array, last slot first: the elements of the prefix for the second time, and
  the slots behind it although they were never constructed.

  Here the constructor of element 2 of an array of 4 throws: elements 0 and 1 are
  constructed, then destroyed in that order, and the header 3000 is still registered;
  the collection that follows destroys the slots 3, 2, 1 and 0.
\<close>

theorem array_ctor_failure_leaves_header:
  "New_array tc_example 30 3000 4 8 (throws_at 2) = Some (Thrown tc_failed)
   \<and> all_objects tc_failed = [1000, 2000, 3000]
   \<and> map_option destructor (fmlookup (objects tc_failed) 3000) = Some (Destroy_reverse 8)
   \<and> map_option root_ref_cnt (fmlookup (objects tc_failed) 3000) = Some 0
   \<and> handles tc_failed 30 = Some \<lparr>type = ROOT, object = None, ptr = None\<rparr>
   \<and> current tc_failed = current tc_example
   \<and> payload_log tc_failed
       = [Constructed 3000 0, Constructed 3000 1, Destroyed 3000 0, Destroyed 3000 1]
   \<and> map_option all_objects (gc_collect tc_failed) = Some [1000]
   \<and> map_option finalised (gc_collect tc_failed) = Some [2000, 3000]
   \<and> map_option payload_log (gc_collect tc_failed)
       = Some [Constructed 3000 0, Constructed 3000 1, Destroyed 3000 0, Destroyed 3000 1,
               Destroyed 2000 0,
               Destroyed 3000 3, Destroyed 3000 2, Destroyed 3000 1, Destroyed 3000 0]"
proof -
  have n: "(4::nat) = Suc (Suc (Suc (Suc 0)))" "(2::nat) = Suc (Suc 0)"
    by simp_all
  have ce: "construct_elements (throws_at 2) 3000 0 4 []
      = (2, True, [Constructed 3000 0, Constructed 3000 1])"
    unfolding n by (simp add: throws_at_def)
  have d: "std_destroy 3000 0 2 = [Destroyed 3000 0, Destroyed 3000 1]"
    by (simp add: std_destroy_def upt_rec numeral_2_eq_2)
  have new: "New_array tc_example 30 3000 4 8 (throws_at 2) = Some (Thrown tc_failed)"
    by (simp add: New_array_def gc_base_ptr_ctor_def classify_def tc_example_def Let_def
        register_object_def store_ptr_def ce d unwind_new_def dec_root_def store_object_def
        tc_failed_def sizeof_gc_object_def start_def)
  have r: "rev [0..<4] = [3, 2, 1, 0::nat]"
    by (simp add: upt_rec)
  have col: "map_option all_objects (gc_collect tc_failed) = Some [1000]"
    "map_option finalised (gc_collect tc_failed) = Some [2000, 3000]"
    "map_option payload_log (gc_collect tc_failed)
       = Some [Constructed 3000 0, Constructed 3000 1, Destroyed 3000 0, Destroyed 3000 1,
               Destroyed 2000 0,
               Destroyed 3000 3, Destroyed 3000 2, Destroyed 3000 1, Destroyed 3000 0]"
    by (simp_all add: gc_collect_def tc_failed_def is_marked_def finalise_def run_destructor_def
        start_def sizeof_gc_object_def r)
  show ?thesis
    using new col by (simp add: tc_failed_def tc_example_def)
qed

section \<open>The reference-counted pointer: theorems\<close>

subsection \<open>Observers of a weak handle\<close>

text \<open>
  Claim C10. For a weak handle, \<open>get()\<close> returns null whatever the state of the managed
  object, also while it is alive. So a weak handle equals \<open>nullptr\<close> and equals every
  other weak handle under \<open>operator==\<close>, while its \<open>operator bool\<close> is true whenever
  \<open>expired()\<close> is false.
\<close>

theorem weak_handle_observers:
  assumes "handle_at s w = Some p" "is_weak p" "handle_at s w' = Some p'" "is_weak p'"
  shows "get s w = Inr None \<and> operator_eq_nullptr s w = Inr True \<and> operator_eq s w w' = Inr True
     \<and> (expired s w = Inr False \<longrightarrow> operator_bool s w = Inr True)"
  using assms
  by (auto simp: get_def operator_eq_nullptr_def operator_eq_def operator_bool_def split: option.splits)

theorem weak_handle_observers_witness:
  "handle_at rc_example 1 = Some \<lparr>ctrl = Some 7, is_weak = True\<rparr>
   \<and> handle_at rc_example 2 = Some \<lparr>ctrl = Some 7, is_weak = True\<rparr>
   \<and> map_option cb_ptr (blocks rc_example 7) = Some (Some 100)
   \<and> expired rc_example 1 = Inr False
   \<and> get rc_example 1 = Inr None \<and> operator_eq_nullptr rc_example 1 = Inr True
   \<and> operator_eq rc_example 1 2 = Inr True \<and> operator_bool rc_example 1 = Inr True"
proof -
  have h1: "handle_at rc_example 1 = Some \<lparr>ctrl = Some 7, is_weak = True\<rparr>"
    and h2: "handle_at rc_example 2 = Some \<lparr>ctrl = Some 7, is_weak = True\<rparr>"
    by (simp_all add: handle_at_def rc_example_def)
  have e: "expired rc_example 1 = Inr False"
    by (simp add: expired_def handle_at_def rc_example_def ControlBlock_ctor_def)
  have p: "map_option cb_ptr (blocks rc_example 7) = Some (Some 100)"
    by (simp add: rc_example_def ControlBlock_ctor_def)
  from weak_handle_observers [OF h1 _ h2] h1 h2 e p show ?thesis
    by simp
qed

subsection \<open>The last strong release\<close>




subsection \<open>Promotion of a weak handle\<close>

text \<open>
  Claim C2. Let \<open>w\<close> be the handle that \<open>make_weak\<close> returns for a strong, non-null
  handle of the block \<open>c\<close>. It is a weak handle of \<open>c\<close>, and in every later state in which
  \<open>w\<close> is unchanged and the block is there, \<open>w.lock()\<close> returns a new handle: while the
  strong counter is not 0 a strong handle of \<open>c\<close>, and the strong counter is then one
  more; once the strong counter is 0 a null handle, and no block has changed, so the
  counter is 0 still and every later \<open>lock()\<close> gives null again. \<open>lock()\<close> on a strong
  handle returns a copy of it, with one more strong unit on its block, and on a null
  handle a null handle and the blocks as they were. Nothing else of the state changes
  in any of them.
\<close>

theorem lock_promotes_iff_alive:
  assumes sr: "handle_at s0 strong_ref = Some q" "ctrl q = Some c" "\<not> is_weak q"
    and mw: "make_weak b s0 strong_ref = Inr (w, s1)"
    and later: "handle_at s w = handle_at s1 w" "blocks s c = Some cb"
  shows "handle_at s1 w = Some \<lparr>ctrl = Some c, is_weak = True\<rparr>
     \<and> (\<exists>r s'. lock b s w = Inr (r, s')
           \<and> handle_at s' r = Some (if 0 < gc_strong_count cb then \<lparr>ctrl = Some c, is_weak = False\<rparr>
                                     else null_handle)
           \<and> (handle_at s' r \<noteq> Some null_handle \<longleftrightarrow> gc_strong_count cb \<noteq> 0)
           \<and> r = length (vhandles s)
           \<and> s' = (if 0 < gc_strong_count cb
                    then s\<lparr>blocks := (blocks s)(c \<mapsto> cb\<lparr>gc_strong_count := gc_strong_count cb + 1\<rparr>),
                           vhandles := vhandles s @ [Some \<lparr>ctrl = Some c, is_weak = False\<rparr>]\<rparr>
                    else s\<lparr>vhandles := vhandles s @ [Some null_handle]\<rparr>))
     \<and> (\<forall>h p c' cb'. handle_at s h = Some p \<and> \<not> is_weak p \<and> ctrl p = Some c'
            \<and> blocks s c' = Some cb' \<and> verify_integrity b cb' = None \<longrightarrow>
          lock b s h
            = Inr (length (vhandles s),
                   s\<lparr>blocks := (blocks s)(c' \<mapsto> cb'\<lparr>gc_strong_count := gc_strong_count cb' + 1\<rparr>),
                     vhandles := vhandles s @ [Some p]\<rparr>))
     \<and> (\<forall>h p. handle_at s h = Some p \<and> ctrl p = None \<longrightarrow>
          lock b s h = Inr (length (vhandles s), s\<lparr>vhandles := vhandles s @ [Some null_handle]\<rparr>))"
proof (intro conjI allI impI)
  from sr mw show w: "handle_at s1 w = Some \<lparr>ctrl = Some c, is_weak = True\<rparr>"
    by (auto simp: make_weak_def new_handle_def handle_at_def split: sum.splits)
  with later show "\<exists>r s'. lock b s w = Inr (r, s')
           \<and> handle_at s' r = Some (if 0 < gc_strong_count cb then \<lparr>ctrl = Some c, is_weak = False\<rparr>
                                     else null_handle)
           \<and> (handle_at s' r \<noteq> Some null_handle \<longleftrightarrow> gc_strong_count cb \<noteq> 0)
           \<and> r = length (vhandles s)
           \<and> s' = (if 0 < gc_strong_count cb
                    then s\<lparr>blocks := (blocks s)(c \<mapsto> cb\<lparr>gc_strong_count := gc_strong_count cb + 1\<rparr>),
                           vhandles := vhandles s @ [Some \<lparr>ctrl = Some c, is_weak = False\<rparr>]\<rparr>
                    else s\<lparr>vhandles := vhandles s @ [Some null_handle]\<rparr>)"
    by (auto simp: lock_def try_add_strong_def new_handle_def handle_at_def null_handle_def
        word_greater_zero_iff)
next
  fix h p c' cb'
  assume a: "handle_at s h = Some p \<and> \<not> is_weak p \<and> ctrl p = Some c'
            \<and> blocks s c' = Some cb' \<and> verify_integrity b cb' = None"
  have "\<lparr>ctrl = ctrl p, is_weak = is_weak p\<rparr> = p"
    by (cases p) simp
  with a show "lock b s h
            = Inr (length (vhandles s),
                   s\<lparr>blocks := (blocks s)(c' \<mapsto> cb'\<lparr>gc_strong_count := gc_strong_count cb' + 1\<rparr>),
                     vhandles := vhandles s @ [Some p]\<rparr>)"
    by (simp add: lock_def copy_ctor_def add_strong_def noexcept_def new_handle_def)
next
  fix h p
  assume a: "handle_at s h = Some p \<and> ctrl p = None"
  show "lock b s h = Inr (length (vhandles s), s\<lparr>vhandles := vhandles s @ [Some null_handle]\<rparr>)"
  proof (cases "is_weak p")
    case True
    with a show ?thesis
      by (simp add: lock_def new_handle_def)
  next
    case False
    with a have "\<lparr>ctrl = ctrl p, is_weak = is_weak p\<rparr> = null_handle"
      by (simp add: null_handle_def)
    with a False show ?thesis
      by (simp add: lock_def copy_ctor_def new_handle_def)
  qed
qed

theorem lock_promotes_iff_alive_witness:
  "make_weak build_ts rc_single 0 = Inr (1, rc_weakened)
   \<and> lock build_ts rc_weakened 1
       = Inr (2, rc_weakened\<lparr>blocks := [7 \<mapsto> (ControlBlock_ctor (Some 100) False)
                                          \<lparr>gc_strong_count := 2, gc_weak_count := 1\<rparr>],
                            vhandles := vhandles rc_weakened @ [Some \<lparr>ctrl = Some 7, is_weak = False\<rparr>]\<rparr>)
   \<and> lock build_ts rc_expired 1
       = Inr (2, rc_expired\<lparr>vhandles := vhandles rc_expired @ [Some null_handle]\<rparr>)"
proof -
  have sr: "handle_at rc_single 0 = Some \<lparr>ctrl = Some 7, is_weak = False\<rparr>"
    by (simp add: handle_at_def rc_single_def)
  have mw: "make_weak build_ts rc_single 0 = Inr (1, rc_weakened)"
    by (simp add: make_weak_def handle_at_def rc_single_def rc_weakened_def add_weak_def
        verify_integrity_def ControlBlock_ctor_def build_ts_def new_handle_def)
  have same: "handle_at rc_expired 1 = handle_at rc_weakened 1"
    by (simp add: handle_at_def rc_expired_def rc_weakened_def)
  have b1: "blocks rc_weakened 7 = Some ((ControlBlock_ctor (Some 100) False)\<lparr>gc_weak_count := 1\<rparr>)"
    by (simp add: rc_weakened_def)
  have b2: "blocks rc_expired 7 = Some ((ControlBlock_ctor None False)
                 \<lparr>gc_strong_count := 0, gc_weak_count := 1, object_destroyed := True\<rparr>)"
    by (simp add: rc_expired_def)
  have l: "length (vhandles rc_weakened) = 2" "length (vhandles rc_expired) = 2"
    "blocks rc_weakened = [7 \<mapsto> (ControlBlock_ctor (Some 100) False)\<lparr>gc_weak_count := 1\<rparr>]"
    by (simp_all add: rc_weakened_def rc_expired_def)
  from lock_promotes_iff_alive [OF sr _ _ mw refl b1]
  have "lock build_ts rc_weakened 1
       = Inr (2, rc_weakened\<lparr>blocks := [7 \<mapsto> (ControlBlock_ctor (Some 100) False)
                                          \<lparr>gc_strong_count := 2, gc_weak_count := 1\<rparr>],
                            vhandles := vhandles rc_weakened @ [Some \<lparr>ctrl = Some 7, is_weak = False\<rparr>]\<rparr>)"
    by (auto simp: l ControlBlock_ctor_def)
  moreover from lock_promotes_iff_alive [OF sr _ _ mw same b2]
  have "lock build_ts rc_expired 1
       = Inr (2, rc_expired\<lparr>vhandles := vhandles rc_expired @ [Some null_handle]\<rparr>)"
    by (auto simp: l ControlBlock_ctor_def)
  ultimately show ?thesis
    using mw by simp
qed

subsection \<open>Dereference\<close>

text \<open>
  Claim C6, as the code has it. \<open>operator->\<close> fails on a weak handle and on a null handle
  (the weak test comes first). Otherwise the thread-safe build returns a view that holds
  the mutex of the control block exclusively, a \<open>std::unique_lock\<close>, until the
  destructor of the view unlocks it; the other build returns the raw pointer and locks
  nothing.
\<close>

theorem operator_arrow_locked_view:
  assumes "handle_at s this = Some p"
  shows "(is_weak p \<longrightarrow>
            operator_arrow b s this = Inl (throw_or_abort b ''operator->: cannot dereference weak pointer''))
     \<and> (\<not> is_weak p \<and> ctrl p = None \<longrightarrow>
            operator_arrow b s this = Inl (throw_or_abort b ''operator->: null pointer dereference''))
     \<and> (\<forall>c cb a. \<not> is_weak p \<and> ctrl p = Some c \<and> blocks s c = Some cb \<and> cb_ptr cb = Some a
            \<and> object_mutex cb = Unlocked \<and> TM b = TM_True \<longrightarrow>
          operator_arrow b s this
            = Inr (Proxy \<lparr>proxy_ptr = Some a, lock_owns = Some c\<rparr>,
                   s\<lparr>blocks := (blocks s)(c \<mapsto> cb\<lparr>object_mutex := Locked_exclusive\<rparr>)\<rparr>)
          \<and> LockedProxy_dtor (s\<lparr>blocks := (blocks s)(c \<mapsto> cb\<lparr>object_mutex := Locked_exclusive\<rparr>)\<rparr>)
               \<lparr>proxy_ptr = Some a, lock_owns = Some c\<rparr> = Inr s)
     \<and> (\<forall>c cb. \<not> is_weak p \<and> ctrl p = Some c \<and> blocks s c = Some cb \<and> TM b = TM_False \<longrightarrow>
          operator_arrow b s this = Inr (Raw (cb_ptr cb), s))"
proof (intro conjI allI impI)
  fix c cb a
  assume h: "\<not> is_weak p \<and> ctrl p = Some c \<and> blocks s c = Some cb \<and> cb_ptr cb = Some a
            \<and> object_mutex cb = Unlocked \<and> TM b = TM_True"
  then have "(blocks s)(c \<mapsto> cb\<lparr>object_mutex := Unlocked\<rparr>) = blocks s"
    by (cases cb) (simp add: fun_upd_idem)
  with h show "LockedProxy_dtor (s\<lparr>blocks := (blocks s)(c \<mapsto> cb\<lparr>object_mutex := Locked_exclusive\<rparr>)\<rparr>)
               \<lparr>proxy_ptr = Some a, lock_owns = Some c\<rparr> = Inr s"
    by (simp add: LockedProxy_dtor_def)
  from h assms show "operator_arrow b s this
            = Inr (Proxy \<lparr>proxy_ptr = Some a, lock_owns = Some c\<rparr>,
                   s\<lparr>blocks := (blocks s)(c \<mapsto> cb\<lparr>object_mutex := Locked_exclusive\<rparr>)\<rparr>)"
    by (simp add: operator_arrow_def LockedProxy_ctor_def)
qed (use assms in \<open>simp_all add: operator_arrow_def\<close>)

theorem operator_arrow_locked_view_witness:
  "handle_at rc_single 0 = Some \<lparr>ctrl = Some 7, is_weak = False\<rparr>
   \<and> operator_arrow build_ts rc_single 0
       = Inr (Proxy \<lparr>proxy_ptr = Some 100, lock_owns = Some 7\<rparr>, rc_locked)
   \<and> LockedProxy_dtor rc_locked \<lparr>proxy_ptr = Some 100, lock_owns = Some 7\<rparr> = Inr rc_single
   \<and> operator_arrow build_ts rc_weakened 1
       = Inl (MemorySafety ''operator->: cannot dereference weak pointer'')"
proof -
  have h0: "handle_at rc_single 0 = Some \<lparr>ctrl = Some 7, is_weak = False\<rparr>"
    by (simp add: handle_at_def rc_single_def)
  have h1: "handle_at rc_weakened 1 = Some \<lparr>ctrl = Some 7, is_weak = True\<rparr>"
    by (simp add: handle_at_def rc_weakened_def)
  have l: "rc_single\<lparr>blocks := (blocks rc_single)(7 \<mapsto>
      (ControlBlock_ctor (Some 100) False)\<lparr>object_mutex := Locked_exclusive\<rparr>)\<rparr> = rc_locked"
    by (simp add: rc_single_def rc_locked_def)
  from operator_arrow_locked_view [OF h0, of build_ts]
  have "operator_arrow build_ts rc_single 0
       = Inr (Proxy \<lparr>proxy_ptr = Some 100, lock_owns = Some 7\<rparr>, rc_locked)
     \<and> LockedProxy_dtor rc_locked \<lparr>proxy_ptr = Some 100, lock_owns = Some 7\<rparr> = Inr rc_single"
    unfolding l [symmetric]
    by (simp add: rc_single_def ControlBlock_ctor_def build_ts_def)
  moreover from operator_arrow_locked_view [OF h1, of build_ts]
  have "operator_arrow build_ts rc_weakened 1
       = Inl (MemorySafety ''operator->: cannot dereference weak pointer'')"
    by (simp add: throw_or_abort_def build_ts_def)
  ultimately show ?thesis
    using h0 by simp
qed

text \<open>
  The lock of the view is not a shared one: behind \<open>operator->\<close> of the thread-safe build
  the mutex is locked exclusively, and the other build takes no lock.
\<close>

theorem operator_arrow_lock_is_exclusive:
  "operator_arrow build_ts rc_single 0
     = Inr (Proxy \<lparr>proxy_ptr = Some 100, lock_owns = Some 7\<rparr>, rc_locked)
   \<and> \<not> holds_shared_lock rc_locked 7
   \<and> operator_arrow build_fast rc_single 0 = Inr (Raw (Some 100), rc_single)
   \<and> \<not> holds_shared_lock rc_single 7"
  by (simp add: operator_arrow_def LockedProxy_ctor_def handle_at_def rc_single_def rc_locked_def
      build_ts_def build_fast_def ControlBlock_ctor_def holds_shared_lock_def)

subsection \<open>A release at counter 0\<close>

text \<open>
  Claim C8. \<open>release_strong\<close> on a block whose strong counter is 0 returns behind its
  guard: the managed object is not destroyed and the control block is not deleted.
  The block is there as it was but for the strong counter, which the decrement in
  front of the guard has taken from 0 to \<open>2\<^sup>6\<^sup>4 - 1\<close>; nothing else of the state changes, and
  the trace has the decrement and no deletion. \<open>release_weak\<close> on a block whose weak
  counter is 0 does the same with the weak counter.
\<close>

theorem release_at_zero_is_guarded:
  assumes "blocks s c = Some cb"
  shows "(gc_strong_count cb = 0 \<longrightarrow>
            release_strong D b s c
              = Inr (s\<lparr>blocks := (blocks s)(c \<mapsto> cb\<lparr>gc_strong_count := 0xFFFFFFFFFFFFFFFF\<rparr>),
                       rc_trace := rc_trace s @ [decrement_event b c Strong]\<rparr>))
     \<and> (gc_weak_count cb = 0 \<longrightarrow>
            release_weak b s c
              = Inr (s\<lparr>blocks := (blocks s)(c \<mapsto> cb\<lparr>gc_weak_count := 0xFFFFFFFFFFFFFFFF\<rparr>),
                       rc_trace := rc_trace s @ [decrement_event b c Weak]\<rparr>))"
proof -
  have w: "(0xFFFFFFFFFFFFFFFF :: 64 word) = - 1"
    by simp
  show ?thesis
    using assms unfolding w by (simp add: release_strong_def release_weak_def)
qed

theorem release_at_zero_is_guarded_witness:
  "release_strong (member_dtor build_ts 1) build_ts rc_expired 7
     = Inr (rc_expired\<lparr>blocks := [7 \<mapsto> (ControlBlock_ctor None False)
                 \<lparr>gc_strong_count := 0xFFFFFFFFFFFFFFFF, gc_weak_count := 1, object_destroyed := True\<rparr>],
              rc_trace := [Fetch_sub 7 Strong release]\<rparr>)
   \<and> release_weak build_ts rc_single 7
       = Inr (rc_single\<lparr>blocks := [7 \<mapsto> (ControlBlock_ctor (Some 100) False)
                                      \<lparr>gc_weak_count := 0xFFFFFFFFFFFFFFFF\<rparr>],
                        rc_trace := [Fetch_sub 7 Weak release]\<rparr>)"
proof -
  have b1: "blocks rc_expired 7 = Some ((ControlBlock_ctor None False)
                 \<lparr>gc_strong_count := 0, gc_weak_count := 1, object_destroyed := True\<rparr>)"
    by (simp add: rc_expired_def)
  have b2: "blocks rc_single 7 = Some (ControlBlock_ctor (Some 100) False)"
    by (simp add: rc_single_def)
  have e: "decrement_event build_ts 7 Strong = Fetch_sub 7 Strong release"
    "decrement_event build_ts 7 Weak = Fetch_sub 7 Weak release"
    by (simp_all add: decrement_event_def build_ts_def MO_release_def)
  from release_at_zero_is_guarded [OF b1, of "member_dtor build_ts 1" build_ts]
  have "release_strong (member_dtor build_ts 1) build_ts rc_expired 7
     = Inr (rc_expired\<lparr>blocks := [7 \<mapsto> (ControlBlock_ctor None False)
                 \<lparr>gc_strong_count := 0xFFFFFFFFFFFFFFFF, gc_weak_count := 1, object_destroyed := True\<rparr>],
              rc_trace := [Fetch_sub 7 Strong release]\<rparr>)"
    by (simp add: e rc_expired_def ControlBlock_ctor_def)
  moreover from release_at_zero_is_guarded [OF b2, of "member_dtor build_ts 1" build_ts]
  have "release_weak build_ts rc_single 7
       = Inr (rc_single\<lparr>blocks := [7 \<mapsto> (ControlBlock_ctor (Some 100) False)
                                      \<lparr>gc_weak_count := 0xFFFFFFFFFFFFFFFF\<rparr>],
                        rc_trace := [Fetch_sub 7 Weak release]\<rparr>)"
    by (simp add: e rc_single_def ControlBlock_ctor_def)
  ultimately show ?thesis
    by simp
qed

subsection \<open>The accounting of the handles\<close>

text \<open>
  Claim C7 does not hold of the code: the move assignment releases the unit of its
  destination before it reads its source. In \<open>rc_list\<close> the handle \<open>p\<close> holds the first
  node of a list and the member \<open>next\<close> of that node holds the second node. The statement
  \<open>p = std::move(p.get()->next)\<close> is \<open>move_assign\<close> with destination 0 and source 1. Its
  release takes the strong counter of the first block to 0 and destroys the first
  node; the destructor of the node destroys its member \<open>next\<close>, the source, and that takes
  the second node and the second block away. The state behind the release has no block
  and no live handle but \<open>p\<close>, and the read of the source that follows is a read of a
  destroyed handle inside a deleted object. The copy assignment from the same source,
  which copies before it releases, leaves \<open>p\<close> as the one strong handle of the second
  block, whose strong counter is 1.
\<close>

theorem move_assign_releases_before_it_reads:
  "VSharedPtr_release (member_dtor build_ts 2) build_ts rc_list 0
     = Inr \<lparr>blocks = Map.empty,
            vhandles = [Some \<lparr>ctrl = Some 7, is_weak = False\<rparr>, None, None],
            members = Map.empty,
            rc_trace = [Fetch_sub 7 Strong release, Fence acquire, Lock_exclusive 7,
              Delete_object 100 False,
              Fetch_sub 8 Strong release, Fence acquire, Lock_exclusive 8, Delete_object 200 False,
              Unlock_exclusive 8, Load_count 8 Weak, Fence acquire, Delete_this 8,
              Unlock_exclusive 7, Load_count 7 Weak, Fence acquire, Delete_this 7]\<rparr>
   \<and> move_assign (member_dtor build_ts 2) build_ts rc_list 0 1 = Inl Undefined
   \<and> copy_assign (member_dtor build_ts 2) build_ts rc_list 0 1
     = Inr \<lparr>blocks = [8 \<mapsto> ControlBlock_ctor (Some 200) False],
            vhandles = [Some \<lparr>ctrl = Some 8, is_weak = False\<rparr>, None, Some null_handle, None],
            members = [200 \<mapsto> [2]],
            rc_trace = [Fetch_sub 7 Strong release, Fence acquire, Lock_exclusive 7,
              Delete_object 100 False, Fetch_sub 8 Strong release,
              Unlock_exclusive 7, Load_count 7 Weak, Fence acquire, Delete_this 7]\<rparr>"
proof -
  have n: "member_dtor b 2 = dtor (dtor (member_dtor b 0) b) b" for b
    by (simp add: numeral_2_eq_2)
  have rel: "VSharedPtr_release (member_dtor build_ts 2) build_ts rc_list 0
     = Inr \<lparr>blocks = Map.empty,
            vhandles = [Some \<lparr>ctrl = Some 7, is_weak = False\<rparr>, None, None],
            members = Map.empty,
            rc_trace = [Fetch_sub 7 Strong release, Fence acquire, Lock_exclusive 7,
              Delete_object 100 False,
              Fetch_sub 8 Strong release, Fence acquire, Lock_exclusive 8, Delete_object 200 False,
              Unlock_exclusive 8, Load_count 8 Weak, Fence acquire, Delete_this 8,
              Unlock_exclusive 7, Load_count 7 Weak, Fence acquire, Delete_this 7]\<rparr>"
    by (simp add: n VSharedPtr_release_def release_strong_def destroy_object_def delete_object_def
        unlock_exclusive_def dtor_def handle_at_def delete_this_def rc_list_def null_handle_def
        ControlBlock_ctor_def decrement_event_def fence_events_def build_ts_def MO_release_def
        MO_acquire_def fun_upd_twist)
  have mv: "move_assign (member_dtor build_ts 2) build_ts rc_list 0 1 = Inl Undefined"
    by (simp add: move_assign_def rel handle_at_def)
  have cp: "copy_assign (member_dtor build_ts 2) build_ts rc_list 0 1
     = Inr \<lparr>blocks = [8 \<mapsto> ControlBlock_ctor (Some 200) False],
            vhandles = [Some \<lparr>ctrl = Some 8, is_weak = False\<rparr>, None, Some null_handle, None],
            members = [200 \<mapsto> [2]],
            rc_trace = [Fetch_sub 7 Strong release, Fence acquire, Lock_exclusive 7,
              Delete_object 100 False, Fetch_sub 8 Strong release,
              Unlock_exclusive 7, Load_count 7 Weak, Fence acquire, Delete_this 7]\<rparr>"
    by (simp add: n copy_assign_def copy_ctor_def add_strong_def verify_integrity_def noexcept_def
        new_handle_def swap_handles_def put_handle_def magic_alive_def
        VSharedPtr_release_def release_strong_def destroy_object_def delete_object_def
        unlock_exclusive_def dtor_def handle_at_def delete_this_def rc_list_def null_handle_def
        ControlBlock_ctor_def decrement_event_def fence_events_def build_ts_def MO_release_def
        MO_acquire_def fun_upd_twist)
  show ?thesis
    using rel mv cp by simp
qed

end
